theory Spec2Isabelle
  imports Complex_Main "HOL-Library.Word" "HOL-Library.AList" "HOL-Library.Multiset"
begin

section \<open>The profile model (package sleepy, types)\<close>

text \<open>
  The Go structs of the profile model become records. A field name that occurs in more
  than one struct, or that is also the name of a struct, carries a short prefix in all
  but the first record. An address is a
  \<open>uint64\<close>, that is a 64-bit word; a Go \<open>int\<close> is modelled by \<open>int\<close> (no claim
  depends on its overflow); a string is the list of its bytes (the UTF-8 encoding of
  the text).

  A \<open>float64\<close> value is an element of a type \<open>'f\<close> that is left open. Of its
  arithmetic only the operations that the code applies are named: the zero value, the
  addition, the multiplication, the division and the comparison. They are the
  operations of the classes \<open>zero\<close>, \<open>plus\<close>, \<open>times\<close>, \<open>inverse\<close> and \<open>ord\<close>, which
  state no law, so nothing is assumed of them: neither that the addition is
  associative, nor that the order is total, nor that a quotient is the exact one.
  Whatever is proved for every \<open>'f\<close> therefore holds of the binary64 arithmetic of Go,
  with its rounding, its infinities and its NaN. The conversion \<open>float64(n)\<close> of an
  integer is a parameter, named \<open>float64\<close>, of the functions that convert; it also
  gives the floating-point literals of the source (\<open>100.0\<close> is \<open>float64 100\<close>). The
  examples take the real numbers for \<open>'f\<close> and the embedding of the integers for the
  conversion; every value that occurs in them is representable in binary64 and every
  operation made on them is exact there.
\<close>

type_synonym uint64 = "64 word"

record Stats =
  Filename :: string
  Duration :: string
  Date :: string
  NumSamples :: int

record Symbol =
  Address :: string
  ModuleName :: string
  ProcName :: string
  FilePath :: string
  LineNumber :: int

text \<open>
  \<open>ThreadCounts\<close> is a Go map from thread id to count. \<open>GetDuration\<close> returns the
  value of the first entry that the iteration over the map yields; the association
  list fixes that iteration order as the order of the list.
\<close>

record 'f Callstack =
  Addresses :: "uint64 list"
  ThreadCounts :: "(int \<times> 'f) list"

record Thread =
  ID :: int
  Name :: string

record 'f ProfileData =
  pdStats :: Stats
  Symbols :: "Symbol list"
  Callstacks :: "'f Callstack list"
  Threads :: "Thread list"
  symbolMap :: "uint64 \<rightharpoonup> Symbol"

record ResolvedFrame =
  frAddress :: uint64
  Module :: string
  Function :: string
  SourceFile :: string
  frLineNumber :: int

fun GetDuration :: "('f::zero) Callstack \<Rightarrow> 'f" where
  "GetDuration cs = (case ThreadCounts cs of [] \<Rightarrow> 0 | (t, d) # rest \<Rightarrow> d)"

section \<open>Errors\<close>

text \<open>
  An error value of the Go code is either one of the sentinel errors of the standard
  library, a \<open>*strconv.NumError\<close> (function name, input, cause), or the result of
  \<open>fmt.Errorf\<close>: the format string as written in the source, its string arguments in
  order, and the error wrapped by \<open>%w\<close>, if any.
\<close>

datatype error =
    ErrSyntax
  | ErrRange
  | ErrOther string
  | NumError string string error
  | Errorf string "string list" "error option"

section \<open>Library functions used by the parser (strconv, strings)\<close>

text \<open>
  The value of a digit as \<open>strconv.ParseUint\<close> reads it: a decimal digit, or a letter
  of either case counted from ten.
\<close>

definition digitVal :: "char \<Rightarrow> nat option" where
  "digitVal c =
     (let n = (of_char c :: nat) in
      if 48 \<le> n \<and> n \<le> 57 then Some (n - 48)
      else if 97 \<le> n \<and> n \<le> 122 then Some (n - 97 + 10)
      else if 65 \<le> n \<and> n \<le> 90 then Some (n - 65 + 10)
      else None)"

definition maxUint64 :: nat where
  "maxUint64 = 2 ^ 64 - 1"

text \<open>
  The digit loop of \<open>strconv.ParseUint\<close> for an explicit base and 64 bits: a character
  that is not a digit of the base is a syntax error, a value that leaves the 64 bits is
  a range error. The multiplication is checked against the cutoff
  \<open>maxUint64 div base + 1\<close> before it is made, the addition after.
\<close>

fun parseUintLoop :: "nat \<Rightarrow> string \<Rightarrow> nat \<Rightarrow> error + nat" where
  "parseUintLoop base [] n = Inr n"
| "parseUintLoop base (c # cs) n =
     (case digitVal c of
        None \<Rightarrow> Inl ErrSyntax
      | Some d \<Rightarrow>
          if d \<ge> base then Inl ErrSyntax
          else if n \<ge> maxUint64 div base + 1 then Inl ErrRange
          else if n * base + d > maxUint64 then Inl ErrRange
          else parseUintLoop base cs (n * base + d))"

definition ParseUint :: "string \<Rightarrow> nat \<Rightarrow> error + nat" where
  "ParseUint s base =
     (if s = [] then Inl (NumError ''ParseUint'' s ErrSyntax)
      else case parseUintLoop base s 0 of
             Inl e \<Rightarrow> Inl (NumError ''ParseUint'' s e)
           | Inr n \<Rightarrow> Inr n)"

definition HasPrefix :: "string \<Rightarrow> string \<Rightarrow> bool" where
  "HasPrefix s p = (length p \<le> length s \<and> take (length p) s = p)"

definition TrimPrefix :: "string \<Rightarrow> string \<Rightarrow> string" where
  "TrimPrefix s p = (if HasPrefix s p then drop (length p) s else s)"

text \<open>
  \<open>fmt.Sprintf("%X", addr)\<close> for an unsigned value: the upper-case hexadecimal digits,
  most significant first, without leading zeros, and \<open>0\<close> for zero.
\<close>

definition upperHexDigit :: "nat \<Rightarrow> char" where
  "upperHexDigit d = ''0123456789ABCDEF'' ! d"

function fmtHexUpper :: "nat \<Rightarrow> string" where
  "fmtHexUpper n =
     (if n < 16 then [upperHexDigit n]
      else fmtHexUpper (n div 16) @ [upperHexDigit (n mod 16)])"
  by pat_completeness auto
termination
  by (relation "measure (\<lambda>n. n)") auto

declare fmtHexUpper.simps [simp del]

section \<open>The address index and the stack resolver (package sleepy, parser)\<close>

text \<open>
  \<open>buildSymbolMap\<close> starts from an empty map and visits the symbols in list order.
  A symbol is stored under its address when the address text starts with \<open>0x\<close> and the
  rest is read by \<open>ParseUint\<close> in base 16 without error; otherwise the symbol is passed
  over. The Go map holds a pointer into the symbol slice, which nothing changes
  afterwards; the model stores the symbol.
\<close>

fun buildSymbolMapLoop :: "Symbol list \<Rightarrow> (uint64 \<rightharpoonup> Symbol) \<Rightarrow> (uint64 \<rightharpoonup> Symbol)" where
  "buildSymbolMapLoop [] m = m"
| "buildSymbolMapLoop (symb # rest) m =
     (if HasPrefix (Address symb) ''0x'' then
        (case ParseUint (TrimPrefix (Address symb) ''0x'') 16 of
           Inr addr \<Rightarrow> buildSymbolMapLoop rest (m(of_nat addr \<mapsto> symb))
         | Inl err \<Rightarrow> buildSymbolMapLoop rest m)
      else buildSymbolMapLoop rest m)"

definition buildSymbolMap :: "'f ProfileData \<Rightarrow> 'f ProfileData" where
  "buildSymbolMap pd = pd\<lparr>symbolMap := buildSymbolMapLoop (Symbols pd) Map.empty\<rparr>"

text \<open>
  \<open>ResolveCallstack\<close> appends one frame per address to an initially empty slice.
\<close>

definition resolveFrame :: "'f ProfileData \<Rightarrow> uint64 \<Rightarrow> ResolvedFrame" where
  "resolveFrame pd addr =
     (case symbolMap pd addr of
        Some symb \<Rightarrow>
          \<lparr>frAddress = addr, Module = ModuleName symb, Function = ProcName symb,
           SourceFile = FilePath symb, frLineNumber = LineNumber symb\<rparr>
      | None \<Rightarrow>
          \<lparr>frAddress = addr, Module = ''?'',
           Function = ''[0x'' @ fmtHexUpper (unat addr) @ '']'',
           SourceFile = '''', frLineNumber = 0\<rparr>)"

fun resolveLoop ::
  "'f ProfileData \<Rightarrow> uint64 list \<Rightarrow> ResolvedFrame list \<Rightarrow> ResolvedFrame list" where
  "resolveLoop pd [] frames = frames"
| "resolveLoop pd (addr # rest) frames = resolveLoop pd rest (frames @ [resolveFrame pd addr])"

definition ResolveCallstack :: "'f ProfileData \<Rightarrow> 'f Callstack \<Rightarrow> ResolvedFrame list" where
  "ResolveCallstack pd callstack = resolveLoop pd (Addresses callstack) []"

section \<open>More library functions (strconv.Atoi, strings, bufio.Scanner)\<close>

text \<open>
  \<open>strconv.Atoi\<close> has a fast path for inputs of 1 to 18 bytes (an optional sign, then
  decimal digits) and otherwise goes through \<open>ParseInt\<close> in base 10, whose result must
  fit a signed 64-bit integer.
\<close>

fun atoiFastLoop :: "string \<Rightarrow> int \<Rightarrow> int option" where
  "atoiFastLoop [] n = Some n"
| "atoiFastLoop (ch # rest) n =
     (if 48 \<le> (of_char ch :: nat) \<and> (of_char ch :: nat) \<le> 57
      then atoiFastLoop rest (n * 10 + int (of_char ch - 48))
      else None)"

definition ParseInt10 :: "string \<Rightarrow> error + int" where
  "ParseInt10 s0 =
     (if s0 = [] then Inl (NumError ''ParseInt'' s0 ErrSyntax)
      else
        let neg = (hd s0 = CHR ''-'');
            s = (if hd s0 = CHR ''+'' \<or> hd s0 = CHR ''-'' then tl s0 else s0)
        in case ParseUint s 10 of
             Inl e \<Rightarrow>
               (if e = NumError ''ParseUint'' s ErrRange
                then Inl (NumError ''ParseInt'' s0 ErrRange)
                else Inl (NumError ''ParseInt'' s0 ErrSyntax))
           | Inr un \<Rightarrow>
               if \<not> neg \<and> un \<ge> 2 ^ 63 then Inl (NumError ''ParseInt'' s0 ErrRange)
               else if neg \<and> un > 2 ^ 63 then Inl (NumError ''ParseInt'' s0 ErrRange)
               else Inr (if neg then - int un else int un))"

definition Atoi :: "string \<Rightarrow> error + int" where
  "Atoi s =
     (if 0 < length s \<and> length s < 19 then
        (let s1 = (if hd s = CHR ''-'' \<or> hd s = CHR ''+'' then tl s else s) in
         if s1 = [] then Inl (NumError ''Atoi'' s ErrSyntax)
         else case atoiFastLoop s1 0 of
                None \<Rightarrow> Inl (NumError ''Atoi'' s ErrSyntax)
              | Some n \<Rightarrow> Inr (if hd s = CHR ''-'' then - n else n))
      else case ParseInt10 s of
             Inl e \<Rightarrow> (case e of NumError f x c \<Rightarrow> Inl (NumError ''Atoi'' x c) | _ \<Rightarrow> Inl e)
           | Inr n \<Rightarrow> Inr n)"

text \<open>
  White space as \<open>strings.TrimSpace\<close> and \<open>strings.Fields\<close> see it: the runes for
  which \<open>unicode.IsSpace\<close> holds. They are the six ASCII characters tab, line feed,
  vertical tab, form feed, carriage return and space, then U+0085 and U+00A0, and
  beyond Latin-1 the runes of the property \<open>White_Space\<close>: U+1680, U+2000 to U+200A,
  U+2028, U+2029, U+202F, U+205F and U+3000. A line being the list of its bytes, the
  table holds the UTF-8 encoding of each of these runes.
\<close>

definition spaceRunes :: "string list" where
  "spaceRunes =
     [[CHR 0x09], [CHR 0x0A], [CHR 0x0B], [CHR 0x0C], [CHR 0x0D], [CHR 0x20],
      [CHR 0xC2, CHR 0x85], [CHR 0xC2, CHR 0xA0],
      [CHR 0xE1, CHR 0x9A, CHR 0x80],
      [CHR 0xE2, CHR 0x80, CHR 0x80], [CHR 0xE2, CHR 0x80, CHR 0x81],
      [CHR 0xE2, CHR 0x80, CHR 0x82], [CHR 0xE2, CHR 0x80, CHR 0x83],
      [CHR 0xE2, CHR 0x80, CHR 0x84], [CHR 0xE2, CHR 0x80, CHR 0x85],
      [CHR 0xE2, CHR 0x80, CHR 0x86], [CHR 0xE2, CHR 0x80, CHR 0x87],
      [CHR 0xE2, CHR 0x80, CHR 0x88], [CHR 0xE2, CHR 0x80, CHR 0x89],
      [CHR 0xE2, CHR 0x80, CHR 0x8A],
      [CHR 0xE2, CHR 0x80, CHR 0xA8], [CHR 0xE2, CHR 0x80, CHR 0xA9],
      [CHR 0xE2, CHR 0x80, CHR 0xAF],
      [CHR 0xE2, CHR 0x81, CHR 0x9F],
      [CHR 0xE3, CHR 0x80, CHR 0x80]]"

text \<open>
  The number of bytes of the rune of a table that a text starts with, and 0 when it
  starts with none. No encoding of the table is the beginning of another, and none
  begins with a continuation byte, so that a text starts with the encoding of a white
  space rune exactly when the rune that Go decodes at its front is white space.
\<close>

definition runeWidth :: "string list \<Rightarrow> string \<Rightarrow> nat" where
  "runeWidth table s = (case find (HasPrefix s) table of None \<Rightarrow> 0 | Some e \<Rightarrow> length e)"

fun trimRunes :: "string list \<Rightarrow> string \<Rightarrow> string" where
  "trimRunes table [] = []"
| "trimRunes table (c # cs) =
     (case runeWidth table (c # cs) of
        0 \<Rightarrow> c # cs
      | Suc n \<Rightarrow> trimRunes table (drop n cs))"

text \<open>
  \<open>strings.TrimSpace\<close> removes the white space runes at the front of the text, then
  those at its end; at the end the text is read backwards, against the reversed
  encodings.
\<close>

definition TrimSpace :: "string \<Rightarrow> string" where
  "TrimSpace s = rev (trimRunes (map rev spaceRunes) (rev (trimRunes spaceRunes s)))"

text \<open>
  \<open>strings.Fields\<close> splits at every run of white space runes and yields no empty
  field. A byte that does not start a white space rune goes to the field being built.
\<close>

fun fieldsFrom :: "string \<Rightarrow> string \<Rightarrow> string list" where
  "fieldsFrom cur [] = (if cur = [] then [] else [cur])"
| "fieldsFrom cur (c # cs) =
     (case runeWidth spaceRunes (c # cs) of
        0 \<Rightarrow> fieldsFrom (cur @ [c]) cs
      | Suc n \<Rightarrow>
          (if cur = [] then fieldsFrom [] (drop n cs) else cur # fieldsFrom [] (drop n cs)))"

definition Fields :: "string \<Rightarrow> string list" where
  "Fields s = fieldsFrom [] s"

text \<open>
  \<open>strings.SplitN(line, sep, 2)\<close> has two parts exactly when the separator occurs:
  the text before its first occurrence and the text after it.
\<close>

fun cutAt :: "string \<Rightarrow> string \<Rightarrow> (string \<times> string) option" where
  "cutAt sep [] = (if sep = [] then Some ([], []) else None)"
| "cutAt sep (c # cs) =
     (if take (length sep) (c # cs) = sep then Some ([], drop (length sep) (c # cs))
      else case cutAt sep cs of None \<Rightarrow> None | Some (b, a) \<Rightarrow> Some (c # b, a))"

text \<open>
  What a \<open>bufio.Scanner\<close> over a member of the archive delivers: the lines it yields,
  in order, and the error that \<open>scanner.Err()\<close> reports once \<open>Scan\<close> has returned
  false (a read error or a line that is too long), if any.
\<close>

record Reader =
  rdLines :: "string list"
  rdErr :: "error option"

section \<open>The section parsers (package sleepy, parser)\<close>

text \<open>
  A parser that fills a destination through a pointer returns the destination as it
  has left it, together with the error, if any.
\<close>

fun parseStatsLoop :: "string list \<Rightarrow> Stats \<Rightarrow> Stats \<times> error option" where
  "parseStatsLoop [] stats = (stats, None)"
| "parseStatsLoop (line # rest) stats =
     (case cutAt '': '' line of
        None \<Rightarrow> parseStatsLoop rest stats
      | Some (key, val) \<Rightarrow>
          if key = ''Filename'' then parseStatsLoop rest (stats\<lparr>Filename := val\<rparr>)
          else if key = ''Duration'' then parseStatsLoop rest (stats\<lparr>Duration := val\<rparr>)
          else if key = ''Date'' then parseStatsLoop rest (stats\<lparr>Date := val\<rparr>)
          else if key = ''Samples'' then
            (case Atoi val of
               Inl err \<Rightarrow> (stats, Some (Errorf ''invalid Samples value: %w'' [] (Some err)))
             | Inr numSamples \<Rightarrow> parseStatsLoop rest (stats\<lparr>NumSamples := numSamples\<rparr>))
          else parseStatsLoop rest stats)"

definition parseStats :: "Reader \<Rightarrow> Stats \<Rightarrow> Stats \<times> error option" where
  "parseStats r stats =
     (case parseStatsLoop (rdLines r) stats of
        (st, Some err) \<Rightarrow> (st, Some err)
      | (st, None) \<Rightarrow> (st, rdErr r))"

text \<open>
  The tokenizer of \<open>parseSymbols\<close>: the loop over the characters of a line (the
  runes that \<open>range line\<close> yields), with the state \<open>inQuote\<close>, the field being built
  and the fields closed so far; after the loop the field being built is appended as the
  last field.
\<close>

fun symbolFields :: "string \<Rightarrow> bool \<Rightarrow> string \<Rightarrow> string list \<Rightarrow> string list" where
  "symbolFields [] inQuote currentField flds = flds @ [currentField]"
| "symbolFields (r # rest) inQuote currentField flds =
     (if r = CHR 0x22 then symbolFields rest (\<not> inQuote) currentField flds
      else if r = CHR 0x20 \<and> \<not> inQuote then symbolFields rest inQuote [] (flds @ [currentField])
      else symbolFields rest inQuote (currentField @ [r]) flds)"

fun parseSymbolsLoop :: "string list \<Rightarrow> Symbol list \<Rightarrow> Symbol list \<times> error option" where
  "parseSymbolsLoop [] symbols = (symbols, None)"
| "parseSymbolsLoop (line # rest) symbols =
     (if TrimSpace line = [] then parseSymbolsLoop rest symbols
      else
        let flds = symbolFields line False [] [] in
        if length flds < 5
        then (symbols, Some (Errorf ''malformed line in Symbols.txt: %s'' [line] None))
        else
          case Atoi (flds ! 4) of
            Inl err \<Rightarrow>
              (symbols,
               Some (Errorf ''invalid line number in Symbols.txt: %w (line: %s)'' [line] (Some err)))
          | Inr lineNumber \<Rightarrow>
              parseSymbolsLoop rest
                (symbols @ [\<lparr>Address = flds ! 0, ModuleName = flds ! 1,
                             ProcName = flds ! 2, FilePath = flds ! 3,
                             LineNumber = lineNumber\<rparr>]))"

definition parseSymbols :: "Reader \<Rightarrow> Symbol list \<Rightarrow> Symbol list \<times> error option" where
  "parseSymbols r symbols =
     (case parseSymbolsLoop (rdLines r) symbols of
        (sy, Some err) \<Rightarrow> (sy, Some err)
      | (sy, None) \<Rightarrow> (sy, rdErr r))"

text \<open>
  \<open>parseCallstacks\<close> returns either the call stacks or an error. \<open>strconv.ParseFloat\<close>
  (with 64 bits) is a parameter of the model.
\<close>

fun parseAddresses :: "string list \<Rightarrow> uint64 list \<Rightarrow> error + uint64 list" where
  "parseAddresses [] addresses = Inr addresses"
| "parseAddresses (addrStr # rest) addresses =
     (if \<not> HasPrefix addrStr ''0x''
      then Inl (Errorf ''invalid address format %q (expected 0x prefix)'' [addrStr] None)
      else case ParseUint (TrimPrefix addrStr ''0x'') 16 of
             Inl err \<Rightarrow> Inl (Errorf ''invalid address %q: %w'' [addrStr] (Some err))
           | Inr addr \<Rightarrow> parseAddresses rest (addresses @ [of_nat addr]))"

fun parseCallstacksLoop ::
  "(string \<Rightarrow> error + 'f) \<Rightarrow> string list \<Rightarrow> int \<Rightarrow> 'f Callstack list
   \<Rightarrow> error + 'f Callstack list" where
  "parseCallstacksLoop ParseFloat [] callstackID callstacks = Inr callstacks"
| "parseCallstacksLoop ParseFloat (text # rest) callstackID callstacks =
     (let line = TrimSpace text in
      if line = [] then parseCallstacksLoop ParseFloat rest callstackID callstacks
      else
        let parts = Fields line in
        if length parts < 1
        then Inl (Errorf ''malformed Callstacks.txt line (no data): %q'' [line] None)
        else
          case ParseFloat (parts ! 0) of
            Inl err \<Rightarrow> Inl (Errorf ''invalid duration %q: %w'' [parts ! 0] (Some err))
          | Inr duration \<Rightarrow>
              (case parseAddresses (tl parts) [] of
                 Inl err \<Rightarrow> Inl err
               | Inr addresses \<Rightarrow>
                   parseCallstacksLoop ParseFloat rest (callstackID + 1)
                     (callstacks @ [\<lparr>Addresses = addresses,
                                     ThreadCounts = [(callstackID, duration)]\<rparr>])))"

definition parseCallstacks ::
  "(string \<Rightarrow> error + 'f) \<Rightarrow> Reader \<Rightarrow> error + 'f Callstack list" where
  "parseCallstacks ParseFloat r =
     (case parseCallstacksLoop ParseFloat (rdLines r) 1 [] of
        Inl err \<Rightarrow> Inl err
      | Inr callstacks \<Rightarrow>
          (case rdErr r of
             Some err \<Rightarrow> Inl (Errorf ''error reading Callstacks.txt: %w'' [] (Some err))
           | None \<Rightarrow> Inr callstacks))"

fun parseThreadsLoop ::
  "string list \<Rightarrow> Thread \<Rightarrow> bool \<Rightarrow> Thread list \<Rightarrow> Thread list \<times> error option" where
  "parseThreadsLoop [] currentThread isIDLine threads = (threads, None)"
| "parseThreadsLoop (line # rest) currentThread isIDLine threads =
     (if TrimSpace line = [] then parseThreadsLoop rest currentThread isIDLine threads
      else if isIDLine then
        (case Atoi line of
           Inl err \<Rightarrow> (threads, Some (Errorf ''invalid thread ID in Threads.txt: %w'' [] (Some err)))
         | Inr threadID \<Rightarrow> parseThreadsLoop rest (currentThread\<lparr>ID := threadID\<rparr>) False threads)
      else parseThreadsLoop rest \<lparr>ID = 0, Name = ''''\<rparr> True
             (threads @ [currentThread\<lparr>Name := line\<rparr>]))"

definition parseThreads :: "Reader \<Rightarrow> Thread list \<Rightarrow> Thread list \<times> error option" where
  "parseThreads r threads =
     (case parseThreadsLoop (rdLines r) \<lparr>ID = 0, Name = ''''\<rparr> True threads of
        (ts, Some err) \<Rightarrow> (ts, Some err)
      | (ts, None) \<Rightarrow> (ts, rdErr r))"

section \<open>The profile builder (ReadSleepyProfile)\<close>

text \<open>
  A member of the archive has a name and the outcome of opening it. The outcome of
  \<open>zip.OpenReader\<close> on a path is the list of members, in archive order, or an error;
  it is given by the function \<open>OpenReader\<close>, which stands for the file system.
\<close>

record ZipFile =
  zfName :: string
  zfOpen :: "error + Reader"

text \<open>The zero values \<open>Stats{}\<close> and \<open>ProfileData{}\<close>.\<close>

definition zeroStats :: Stats where
  "zeroStats = \<lparr>Filename = '''', Duration = '''', Date = '''', NumSamples = 0\<rparr>"

definition emptyProfile :: "'f ProfileData" where
  "emptyProfile =
     \<lparr>pdStats = zeroStats, Symbols = [], Callstacks = [], Threads = [], symbolMap = Map.empty\<rparr>"

fun readFiles ::
  "(string \<Rightarrow> error + 'f) \<Rightarrow> ZipFile list \<Rightarrow> 'f ProfileData \<Rightarrow> error + 'f ProfileData" where
  "readFiles ParseFloat [] profileData = Inr profileData"
| "readFiles ParseFloat (file # rest) profileData =
     (case zfOpen file of
        Inl err \<Rightarrow> Inl (Errorf ''failed to open file %s in zip: %w'' [zfName file] (Some err))
      | Inr rc \<Rightarrow>
          if zfName file = ''Stats.txt'' then
            (case parseStats rc (pdStats profileData) of
               (st, Some err) \<Rightarrow> Inl (Errorf ''failed to parse Stats.txt: %w'' [] (Some err))
             | (st, None) \<Rightarrow> readFiles ParseFloat rest (profileData\<lparr>pdStats := st\<rparr>))
          else if zfName file = ''Symbols.txt'' then
            (case parseSymbols rc (Symbols profileData) of
               (sy, Some err) \<Rightarrow> Inl (Errorf ''failed to parse Symbols.txt: %w'' [] (Some err))
             | (sy, None) \<Rightarrow> readFiles ParseFloat rest (profileData\<lparr>Symbols := sy\<rparr>))
          else if zfName file = ''Callstacks.txt'' then
            (case parseCallstacks ParseFloat rc of
               Inl err \<Rightarrow> Inl (Errorf ''failed to parse Callstacks.txt: %w'' [] (Some err))
             | Inr callstacks \<Rightarrow> readFiles ParseFloat rest (profileData\<lparr>Callstacks := callstacks\<rparr>))
          else if zfName file = ''Threads.txt'' then
            (case parseThreads rc (Threads profileData) of
               (ts, Some err) \<Rightarrow> Inl (Errorf ''failed to parse Threads.txt: %w'' [] (Some err))
             | (ts, None) \<Rightarrow> readFiles ParseFloat rest (profileData\<lparr>Threads := ts\<rparr>))
          else readFiles ParseFloat rest profileData)"

definition ReadSleepyProfile ::
  "(string \<Rightarrow> error + 'f) \<Rightarrow> (string \<Rightarrow> error + ZipFile list) \<Rightarrow> string
   \<Rightarrow> error + 'f ProfileData" where
  "ReadSleepyProfile ParseFloat OpenReader filePath =
     (case OpenReader filePath of
        Inl err \<Rightarrow> Inl (Errorf ''failed to open zip file: %w'' [] (Some err))
      | Inr files \<Rightarrow>
          (case readFiles ParseFloat files emptyProfile of
             Inl err \<Rightarrow> Inl err
           | Inr profileData \<Rightarrow> Inr (buildSymbolMap profileData)))"

section \<open>The analysis passes (package analyzer)\<close>

text \<open>
  A Go map from function signature to a pointer to a record is an association list
  with one entry per key. A new key goes to the end of the list, an update through
  the pointer replaces the value in place (\<open>AList.update\<close> does both). The iteration
  order of a Go map is not fixed by the language; the model iterates in insertion
  order, which is one of the orders the program can produce.

  \<open>sort.Slice\<close> sorts a slice of at most twelve elements by insertion: each element in
  turn moves to the left past every neighbour that it is less than. (A longer slice is
  sorted by a quicksort that ends in the same insertion on its short parts.) The model
  is the insertion sort, for every length; the part already sorted is held in reverse,
  the nearest neighbour first. The comparison is the function \<open>less\<close> that the caller
  passes. The properties proved below speak of the members of a sorted slice and not of
  their order.
\<close>

fun sinkLeft :: "('a \<Rightarrow> 'a \<Rightarrow> bool) \<Rightarrow> 'a \<Rightarrow> 'a list \<Rightarrow> 'a list" where
  "sinkLeft lessFn x [] = [x]"
| "sinkLeft lessFn x (y # ys) =
     (if lessFn x y then y # sinkLeft lessFn x ys else x # y # ys)"

definition sortSlice :: "('a \<Rightarrow> 'a \<Rightarrow> bool) \<Rightarrow> 'a list \<Rightarrow> 'a list" where
  "sortSlice lessFn xs = rev (foldl (\<lambda>sorted x. sinkLeft lessFn x sorted) [] xs)"

record 'f Hotspot =
  hsFunction :: string
  hsModule :: string
  hsSourceFile :: string
  hsLineNumber :: int
  TotalTime :: 'f
  SampleCount :: int
  Percentage :: 'f
  CallstackRefs :: "int list"

text \<open>The signature \<open>fmt.Sprintf("%s!%s", frame.Module, frame.Function)\<close>.\<close>

definition funcSig :: "ResolvedFrame \<Rightarrow> string" where
  "funcSig frame = Module frame @ ''!'' @ Function frame"

definition newHotspot :: "ResolvedFrame \<Rightarrow> ('f::zero) Hotspot" where
  "newHotspot frame =
     \<lparr>hsFunction = Function frame, hsModule = Module frame,
      hsSourceFile = SourceFile frame, hsLineNumber = frLineNumber frame,
      TotalTime = 0, SampleCount = 0, Percentage = 0, CallstackRefs = []\<rparr>"

text \<open>
  The inner loop of \<open>FindHotspots\<close> over the frames of one call stack, with the map
  \<open>seenInThisStack\<close> (a missing key reads as false) and the map of hotspots.
\<close>

fun hotspotFrames ::
  "int \<Rightarrow> 'f \<Rightarrow> ResolvedFrame list \<Rightarrow> (string \<Rightarrow> bool) \<Rightarrow> (string \<times> 'f Hotspot) list
   \<Rightarrow> (string \<times> ('f::{zero,plus}) Hotspot) list" where
  "hotspotFrames csIdx duration [] seenInThisStack hotspotMap = hotspotMap"
| "hotspotFrames csIdx duration (frame # rest) seenInThisStack hotspotMap =
     (if seenInThisStack (funcSig frame)
      then hotspotFrames csIdx duration rest seenInThisStack hotspotMap
      else
        let hs = (case map_of hotspotMap (funcSig frame) of
                    None \<Rightarrow> newHotspot frame
                  | Some h \<Rightarrow> h)
        in hotspotFrames csIdx duration rest (seenInThisStack(funcSig frame := True))
             (AList.update (funcSig frame)
                (hs\<lparr>TotalTime := TotalTime hs + duration,
                    SampleCount := SampleCount hs + 1,
                    CallstackRefs := CallstackRefs hs @ [csIdx]\<rparr>)
                hotspotMap))"

text \<open>The outer loop over the call stacks, with the running total of the durations.\<close>

fun hotspotStacks ::
  "'f ProfileData \<Rightarrow> 'f Callstack list \<Rightarrow> int \<Rightarrow> (string \<times> 'f Hotspot) list \<times> 'f
   \<Rightarrow> (string \<times> ('f::{zero,plus}) Hotspot) list \<times> 'f" where
  "hotspotStacks pd [] csIdx (hotspotMap, totalProfileTime) = (hotspotMap, totalProfileTime)"
| "hotspotStacks pd (cs # rest) csIdx (hotspotMap, totalProfileTime) =
     hotspotStacks pd rest (csIdx + 1)
       (hotspotFrames csIdx (GetDuration cs) (ResolveCallstack pd cs) (\<lambda>k. False) hotspotMap,
        totalProfileTime + GetDuration cs)"

definition setPercentage ::
  "(int \<Rightarrow> 'f) \<Rightarrow> 'f \<Rightarrow> 'f Hotspot \<Rightarrow> ('f::{zero,times,inverse,ord}) Hotspot" where
  "setPercentage float64 totalProfileTime hs =
     (if totalProfileTime > 0
      then hs\<lparr>Percentage := (TotalTime hs / totalProfileTime) * float64 100\<rparr>
      else hs)"

definition FindHotspots ::
  "(int \<Rightarrow> 'f) \<Rightarrow> 'f ProfileData \<Rightarrow> int \<Rightarrow> ('f::{zero,plus,times,inverse,ord}) Hotspot list" where
  "FindHotspots float64 pd topN =
     (let (hotspotMap, totalProfileTime) = hotspotStacks pd (Callstacks pd) 0 ([], 0);
          hotspots = sortSlice (\<lambda>a b. TotalTime a > TotalTime b)
                       (map (\<lambda>(k, hs). setPercentage float64 totalProfileTime hs) hotspotMap)
      in if topN > 0 \<and> topN < int (length hotspots) then take (nat topN) hotspots
         else hotspots)"

subsection \<open>Statistics\<close>

record 'f ProfileStatistics =
  psTotalTime :: 'f
  TotalCallstacks :: int
  TotalSymbols :: int
  AverageStackDepth :: 'f
  MaxStackDepth :: int
  MinStackDepth :: int
  UniqueModules :: int
  UniqueFunctions :: int

definition zeroStatistics :: "('f::zero) ProfileStatistics" where
  "zeroStatistics =
     \<lparr>psTotalTime = 0, TotalCallstacks = 0, TotalSymbols = 0, AverageStackDepth = 0,
      MaxStackDepth = 0, MinStackDepth = 0, UniqueModules = 0, UniqueFunctions = 0\<rparr>"

definition MaxInt32 :: int where
  "MaxInt32 = 2147483647"

text \<open>
  \<open>moduleSet\<close> and \<open>functionSet\<close> are Go maps used as sets; each is the list of its
  keys without repetition, and its \<open>len\<close> is the length of that list.
\<close>

fun statsFrames ::
  "ResolvedFrame list \<Rightarrow> string list \<times> string list \<Rightarrow> string list \<times> string list" where
  "statsFrames [] (moduleSet, functionSet) = (moduleSet, functionSet)"
| "statsFrames (frame # rest) (moduleSet, functionSet) =
     statsFrames rest
       (if Module frame \<noteq> '''' \<and> Module frame \<noteq> ''?''
        then List.insert (Module frame) moduleSet else moduleSet,
        List.insert (funcSig frame) functionSet)"

fun statsStacks ::
  "'f ProfileData \<Rightarrow> 'f Callstack list
   \<Rightarrow> 'f ProfileStatistics \<times> int \<times> string list \<times> string list
   \<Rightarrow> ('f::{zero,plus}) ProfileStatistics \<times> int \<times> string list \<times> string list" where
  "statsStacks pd [] (stats, totalDepth, moduleSet, functionSet) =
     (stats, totalDepth, moduleSet, functionSet)"
| "statsStacks pd (cs # rest) (stats, totalDepth, moduleSet, functionSet) =
     (let stats1 = stats\<lparr>psTotalTime := psTotalTime stats + GetDuration cs\<rparr>;
          depth = int (length (Addresses cs));
          stats2 = (if depth > MaxStackDepth stats1 then stats1\<lparr>MaxStackDepth := depth\<rparr>
                    else stats1);
          stats3 = (if depth < MinStackDepth stats2 then stats2\<lparr>MinStackDepth := depth\<rparr>
                    else stats2);
          (moduleSet', functionSet') =
             statsFrames (ResolveCallstack pd cs) (moduleSet, functionSet)
      in statsStacks pd rest (stats3, totalDepth + depth, moduleSet', functionSet'))"

definition ComputeStatistics ::
  "(int \<Rightarrow> 'f) \<Rightarrow> 'f ProfileData \<Rightarrow> ('f::{zero,plus,inverse}) ProfileStatistics" where
  "ComputeStatistics float64 pd =
     (let stats = zeroStatistics\<lparr>TotalCallstacks := int (length (Callstacks pd)),
                                 TotalSymbols := int (length (Symbols pd))\<rparr>
      in if TotalCallstacks stats = 0 then stats
         else
           let (stats1, totalDepth, moduleSet, functionSet) =
                 statsStacks pd (Callstacks pd)
                   (stats\<lparr>MinStackDepth := MaxInt32, MaxStackDepth := 0\<rparr>, 0, [], []);
               stats2 = stats1\<lparr>AverageStackDepth :=
                                  float64 totalDepth / float64 (TotalCallstacks stats1),
                                UniqueModules := int (length moduleSet),
                                UniqueFunctions := int (length functionSet)\<rparr>
           in if MinStackDepth stats2 = MaxInt32 then stats2\<lparr>MinStackDepth := 0\<rparr>
              else stats2)"

subsection \<open>Call frequencies\<close>

record 'f FunctionCallFrequency =
  fcFunction :: string
  fcModule :: string
  Count :: int
  fcPercentage :: 'f

fun frequencyFrames ::
  "ResolvedFrame list \<Rightarrow> (string \<Rightarrow> bool) \<Rightarrow> (string \<times> 'f FunctionCallFrequency) list
   \<Rightarrow> (string \<times> ('f::zero) FunctionCallFrequency) list" where
  "frequencyFrames [] seen funcCount = funcCount"
| "frequencyFrames (frame # rest) seen funcCount =
     (if seen (funcSig frame) then frequencyFrames rest seen funcCount
      else
        let fr = (case map_of funcCount (funcSig frame) of
                    None \<Rightarrow> \<lparr>fcFunction = Function frame, fcModule = Module frame,
                             Count = 0, fcPercentage = 0\<rparr>
                  | Some f \<Rightarrow> f)
        in frequencyFrames rest (seen(funcSig frame := True))
             (AList.update (funcSig frame) (fr\<lparr>Count := Count fr + 1\<rparr>) funcCount))"

fun frequencyStacks ::
  "'f ProfileData \<Rightarrow> 'f Callstack list \<Rightarrow> (string \<times> 'f FunctionCallFrequency) list
   \<Rightarrow> (string \<times> ('f::zero) FunctionCallFrequency) list" where
  "frequencyStacks pd [] funcCount = funcCount"
| "frequencyStacks pd (cs # rest) funcCount =
     frequencyStacks pd rest (frequencyFrames (ResolveCallstack pd cs) (\<lambda>k. False) funcCount)"

definition setFrequencyPercentage ::
  "(int \<Rightarrow> 'f) \<Rightarrow> int \<Rightarrow> 'f FunctionCallFrequency
   \<Rightarrow> ('f::{times,inverse}) FunctionCallFrequency" where
  "setFrequencyPercentage float64 totalStacks freq =
     (if totalStacks > 0
      then freq\<lparr>fcPercentage := (float64 (Count freq) / float64 totalStacks) * float64 100\<rparr>
      else freq)"

definition GetFunctionCallFrequencies ::
  "(int \<Rightarrow> 'f) \<Rightarrow> 'f ProfileData \<Rightarrow> ('f::{zero,times,inverse}) FunctionCallFrequency list" where
  "GetFunctionCallFrequencies float64 pd =
     (let totalStacks = int (length (Callstacks pd));
          funcCount = frequencyStacks pd (Callstacks pd) []
      in sortSlice (\<lambda>a b. Count a > Count b)
           (map (\<lambda>(k, freq). setFrequencyPercentage float64 totalStacks freq) funcCount))"

subsection \<open>Issue detection\<close>

text \<open>
  The description of an issue is the result of \<open>fmt.Sprintf\<close>; the model keeps the
  format string of the source and the arguments, unformatted.
\<close>

datatype 'f fmtArg = IntArg int | FloatArg 'f

record 'f PerformanceIssue =
  Severity :: string
  Category :: string
  Description :: "string \<times> 'f fmtArg list"
  piFunction :: string
  piModule :: string
  Impact :: 'f

definition deepStackIssue :: "int \<Rightarrow> ('f::zero) PerformanceIssue" where
  "deepStackIssue depth =
     \<lparr>Severity = ''High'', Category = ''Deep Call Stack'',
      Description = (''Maximum stack depth of %d frames detected. This may indicate deep recursion or complex call chains.'',
                     [IntArg depth]),
      piFunction = '''', piModule = '''', Impact = 0\<rparr>"

definition hotspotIssue :: "string \<Rightarrow> 'f Hotspot \<Rightarrow> 'f PerformanceIssue" where
  "hotspotIssue severity hs =
     \<lparr>Severity = severity, Category = ''CPU Hotspot'',
      Description = (''Function consumes %.2f%% of total execution time'',
                     [FloatArg (Percentage hs)]),
      piFunction = hsFunction hs, piModule = hsModule hs, Impact = Percentage hs\<rparr>"

definition hotLoopIssue :: "'f FunctionCallFrequency \<Rightarrow> 'f PerformanceIssue" where
  "hotLoopIssue freq =
     \<lparr>Severity = ''Critical'', Category = ''Hot Loop'',
      Description = (''Function appears in %.2f%% of all callstacks - likely in a hot loop'',
                     [FloatArg (fcPercentage freq)]),
      piFunction = fcFunction freq, piModule = fcModule freq, Impact = fcPercentage freq\<rparr>"

fun hotspotIssues ::
  "(int \<Rightarrow> 'f) \<Rightarrow> ('f::ord) Hotspot list \<Rightarrow> 'f PerformanceIssue list
   \<Rightarrow> 'f PerformanceIssue list" where
  "hotspotIssues float64 [] issues = issues"
| "hotspotIssues float64 (hs # rest) issues =
     (if Percentage hs > float64 20
      then hotspotIssues float64 rest (issues @ [hotspotIssue ''Critical'' hs])
      else if Percentage hs > float64 10
      then hotspotIssues float64 rest (issues @ [hotspotIssue ''High'' hs])
      else hotspotIssues float64 rest issues)"

fun hotLoopIssues ::
  "(int \<Rightarrow> 'f) \<Rightarrow> ('f::ord) FunctionCallFrequency list \<Rightarrow> 'f PerformanceIssue list
   \<Rightarrow> 'f PerformanceIssue list" where
  "hotLoopIssues float64 [] issues = issues"
| "hotLoopIssues float64 (freq # rest) issues =
     (if fcPercentage freq > float64 80
      then hotLoopIssues float64 rest (issues @ [hotLoopIssue freq])
      else hotLoopIssues float64 rest issues)"

definition DetectPerformanceIssues ::
  "(int \<Rightarrow> 'f) \<Rightarrow> 'f ProfileData
   \<Rightarrow> ('f::{zero,plus,times,inverse,ord}) PerformanceIssue list" where
  "DetectPerformanceIssues float64 pd =
     (let stats = ComputeStatistics float64 pd;
          issues1 = (if MaxStackDepth stats > 50 then [deepStackIssue (MaxStackDepth stats)]
                     else []);
          issues2 = hotspotIssues float64 (FindHotspots float64 pd 10) issues1;
          issues3 = hotLoopIssues float64 (GetFunctionCallFrequencies float64 pd) issues2
      in sortSlice (\<lambda>a b. Impact a > Impact b) issues3)"

section \<open>Auxiliary notions and example inputs\<close>

subsection \<open>The index\<close>

text \<open>
  The address under which \<open>buildSymbolMap\<close> files a symbol, if it files it at all:
  the test made in the body of its loop.
\<close>

definition symbolAddr :: "Symbol \<Rightarrow> uint64 option" where
  "symbolAddr symb =
     (if HasPrefix (Address symb) ''0x'' then
        (case ParseUint (TrimPrefix (Address symb) ''0x'') 16 of
           Inr addr \<Rightarrow> Some (of_nat addr)
         | Inl err \<Rightarrow> None)
      else None)"

text \<open>
  A profile with one symbol at \<open>0x1000\<close> and one sample \<open>0.5 0x1000 0x2000\<close>.
\<close>

definition exampleSymbol :: Symbol where
  "exampleSymbol =
     \<lparr>Address = ''0x1000'', ModuleName = ''app.exe'', ProcName = ''main'',
      FilePath = ''src/x.c'', LineNumber = 42\<rparr>"

definition exampleProfile :: "real ProfileData" where
  "exampleProfile =
     buildSymbolMap (emptyProfile\<lparr>Symbols := [exampleSymbol],
        Callstacks := [\<lparr>Addresses = [4096, 8192], ThreadCounts = [(1, 1/2)]\<rparr>]\<rparr>)"

text \<open>
  A symbol whose address is hexadecimal text without the prefix, in a profile with a
  second symbol at \<open>0x2000\<close>.
\<close>

definition bareHexSymbol :: Symbol where
  "bareHexSymbol =
     \<lparr>Address = ''1000'', ModuleName = ''app.exe'', ProcName = ''helper'',
      FilePath = ''src/y.c'', LineNumber = 7\<rparr>"

definition bareHexProfile :: "real ProfileData" where
  "bareHexProfile = emptyProfile\<lparr>Symbols := [bareHexSymbol, exampleSymbol\<lparr>Address := ''0x2000''\<rparr>]\<rparr>"

text \<open>A profile with one symbol and no sample.\<close>

definition symbolsOnlyProfile :: "real ProfileData" where
  "symbolsOnlyProfile = buildSymbolMap (emptyProfile\<lparr>Symbols := [exampleSymbol]\<rparr>)"

subsection \<open>Lines of the symbol table and of the thread table\<close>

text \<open>
  The number of space characters of a line that stand outside quotes, the quote
  character switching between outside and inside.
\<close>

fun unquotedSpaces :: "string \<Rightarrow> bool \<Rightarrow> nat" where
  "unquotedSpaces [] q = 0"
| "unquotedSpaces (c # cs) q =
     (if c = CHR 0x22 then unquotedSpaces cs (\<not> q)
      else if c = CHR 0x20 \<and> \<not> q then Suc (unquotedSpaces cs q)
      else unquotedSpaces cs q)"

text \<open>
  The non-blank lines of a member, which are the lines that the parsers of the symbol
  table and of the thread table do not skip.
\<close>

definition nonBlank :: "string list \<Rightarrow> string list" where
  "nonBlank ls = filter (\<lambda>l. TrimSpace l \<noteq> []) ls"

text \<open>
  The id lines of a thread table: the first, third, fifth, \<dots> of its non-blank lines.
  The first of them that \<open>strconv.Atoi\<close> rejects, with the error it gives. The threads
  of the table: one for every id line that a name line follows, with the number that
  the id line reads as and the name line, whole, as the name.
\<close>

fun idLines :: "string list \<Rightarrow> string list" where
  "idLines [] = []"
| "idLines [i] = [i]"
| "idLines (i # n # rest) = i # idLines rest"

fun firstBadId :: "string list \<Rightarrow> error option" where
  "firstBadId [] = None"
| "firstBadId (i # rest) = (case Atoi i of Inl err \<Rightarrow> Some err | Inr k \<Rightarrow> firstBadId rest)"

fun threadPairs :: "string list \<Rightarrow> Thread list" where
  "threadPairs [] = []"
| "threadPairs [i] = []"
| "threadPairs (i # n # rest) =
     \<lparr>ID = (case Atoi i of Inl err \<Rightarrow> 0 | Inr k \<Rightarrow> k), Name = n\<rparr> # threadPairs rest"

text \<open>
  A thread table with a trailing id line, and one whose first line is a no-break space
  (U+00A0) and nothing else.
\<close>

definition danglingThreads :: Reader where
  "danglingThreads = \<lparr>rdLines = [''1'', ''main'', ''2''], rdErr = None\<rparr>"

definition nbspThreads :: Reader where
  "nbspThreads = \<lparr>rdLines = [[CHR 0xC2, CHR 0xA0], ''1'', ''main''], rdErr = None\<rparr>"

subsection \<open>Members of an archive: their errors and their content\<close>

text \<open>
  The error, if any, that a member of the archive gives rise to: the member cannot be
  opened, or its name is that of a section and the parser of the section fails on its
  content; the parser's error is wrapped with the name of the section. The first
  error of a list of members is that of the first member that has one.
\<close>

definition wrapError :: "string \<Rightarrow> error option \<Rightarrow> error option" where
  "wrapError msg e = (case e of None \<Rightarrow> None | Some err \<Rightarrow> Some (Errorf msg [] (Some err)))"

definition sectionError :: "(string \<Rightarrow> error + 'f) \<Rightarrow> string \<Rightarrow> Reader \<Rightarrow> error option" where
  "sectionError ParseFloat name rc =
     (if name = ''Stats.txt''
      then wrapError ''failed to parse Stats.txt: %w'' (snd (parseStats rc zeroStats))
      else if name = ''Symbols.txt''
      then wrapError ''failed to parse Symbols.txt: %w'' (snd (parseSymbols rc []))
      else if name = ''Callstacks.txt''
      then wrapError ''failed to parse Callstacks.txt: %w''
             (case parseCallstacks ParseFloat rc of Inl err \<Rightarrow> Some err | Inr cs \<Rightarrow> None)
      else if name = ''Threads.txt''
      then wrapError ''failed to parse Threads.txt: %w'' (snd (parseThreads rc []))
      else None)"

definition memberError :: "(string \<Rightarrow> error + 'f) \<Rightarrow> ZipFile \<Rightarrow> error option" where
  "memberError ParseFloat file =
     (case zfOpen file of
        Inl err \<Rightarrow> Some (Errorf ''failed to open file %s in zip: %w'' [zfName file] (Some err))
      | Inr rc \<Rightarrow> sectionError ParseFloat (zfName file) rc)"

fun firstError :: "(string \<Rightarrow> error + 'f) \<Rightarrow> ZipFile list \<Rightarrow> error option" where
  "firstError ParseFloat [] = None"
| "firstError ParseFloat (file # rest) =
     (case memberError ParseFloat file of
        Some err \<Rightarrow> Some err
      | None \<Rightarrow> firstError ParseFloat rest)"

text \<open>
  What a profile that is fully built holds. The members of a given name that can be
  opened are taken in archive order. The metadata are what the parser of \<open>Stats.txt\<close>
  makes of these members one after the other, starting from the zero value; the symbol
  list is the symbols that the parser of \<open>Symbols.txt\<close> reads from each, one member
  after the other; the thread list likewise; the samples are those that the parser of
  \<open>Callstacks.txt\<close> reads from the last member of that name, and none without such a
  member; the index is the one built from the symbol list. (An archive as the
  profiler writes it has one member of each name.)
\<close>

definition sectionReaders :: "string \<Rightarrow> ZipFile list \<Rightarrow> Reader list" where
  "sectionReaders name files =
     concat (map (\<lambda>file. case zfOpen file of
                            Inl err \<Rightarrow> []
                          | Inr rc \<Rightarrow> if zfName file = name then [rc] else []) files)"

definition builtStats :: "ZipFile list \<Rightarrow> Stats" where
  "builtStats files =
     foldl (\<lambda>stats rc. fst (parseStats rc stats)) zeroStats (sectionReaders ''Stats.txt'' files)"

definition builtSymbols :: "ZipFile list \<Rightarrow> Symbol list" where
  "builtSymbols files =
     concat (map (\<lambda>rc. fst (parseSymbols rc [])) (sectionReaders ''Symbols.txt'' files))"

definition builtThreads :: "ZipFile list \<Rightarrow> Thread list" where
  "builtThreads files =
     concat (map (\<lambda>rc. fst (parseThreads rc [])) (sectionReaders ''Threads.txt'' files))"

definition samplesOfReader :: "(string \<Rightarrow> error + 'f) \<Rightarrow> Reader \<Rightarrow> 'f Callstack list" where
  "samplesOfReader ParseFloat rc =
     (case parseCallstacks ParseFloat rc of Inl err \<Rightarrow> [] | Inr callstacks \<Rightarrow> callstacks)"

definition builtCallstacks :: "(string \<Rightarrow> error + 'f) \<Rightarrow> ZipFile list \<Rightarrow> 'f Callstack list" where
  "builtCallstacks ParseFloat files =
     (if sectionReaders ''Callstacks.txt'' files = [] then []
      else samplesOfReader ParseFloat (last (sectionReaders ''Callstacks.txt'' files)))"

definition builtProfile :: "(string \<Rightarrow> error + 'f) \<Rightarrow> ZipFile list \<Rightarrow> 'f ProfileData" where
  "builtProfile ParseFloat files =
     \<lparr>pdStats = builtStats files, Symbols = builtSymbols files,
      Callstacks = builtCallstacks ParseFloat files, Threads = builtThreads files,
      symbolMap = buildSymbolMapLoop (builtSymbols files) Map.empty\<rparr>"

text \<open>
  A stand-in for \<open>strconv.ParseFloat\<close> in the examples: it reads the two texts \<open>0.5\<close>
  and \<open>1.0\<close> and rejects every other.
\<close>

definition exampleParseFloat :: "string \<Rightarrow> error + real" where
  "exampleParseFloat s =
     (if s = ''0.5'' then Inr (1/2)
      else if s = ''1.0'' then Inr 1
      else Inl (NumError ''ParseFloat'' s ErrSyntax))"

text \<open>
  An archive whose thread table is malformed and whose symbol table, a later member,
  is malformed too; and an archive with the four sections in order, the thread table
  beginning with a line that holds a no-break space.
\<close>

definition brokenArchive :: "ZipFile list" where
  "brokenArchive =
     [\<lparr>zfName = ''Stats.txt'', zfOpen = Inr \<lparr>rdLines = [''Samples: 3''], rdErr = None\<rparr>\<rparr>,
      \<lparr>zfName = ''Threads.txt'', zfOpen = Inr \<lparr>rdLines = [''x''], rdErr = None\<rparr>\<rparr>,
      \<lparr>zfName = ''Symbols.txt'', zfOpen = Inr \<lparr>rdLines = [''a b''], rdErr = None\<rparr>\<rparr>]"

definition goodArchive :: "ZipFile list" where
  "goodArchive =
     [\<lparr>zfName = ''Stats.txt'',
       zfOpen = Inr \<lparr>rdLines = [''Filename: app.exe'', ''Samples: 1''], rdErr = None\<rparr>\<rparr>,
      \<lparr>zfName = ''Symbols.txt'',
       zfOpen = Inr \<lparr>rdLines = [''0x1000 app.exe main src/x.c 42''], rdErr = None\<rparr>\<rparr>,
      \<lparr>zfName = ''Callstacks.txt'',
       zfOpen = Inr \<lparr>rdLines = [''0.5 0x1000 0x2000''], rdErr = None\<rparr>\<rparr>,
      \<lparr>zfName = ''Threads.txt'', zfOpen = Inr nbspThreads\<rparr>]"

subsection \<open>Maps of hotspots\<close>

text \<open>
  A signature is in a sample when it is that of one of the resolved frames of the
  sample, at whatever position and however often; a function, given by its module
  and its name, is in a sample when one of the resolved frames has that module and
  that name. The signature of a hotspot is the one made of its module and function.
  The time and the sample count that a map of hotspots holds for a signature are zero
  when the signature has no entry.
\<close>

definition inStack :: "'f ProfileData \<Rightarrow> string \<Rightarrow> 'f Callstack \<Rightarrow> bool" where
  "inStack pd k cs = (k \<in> funcSig ` set (ResolveCallstack pd cs))"

definition holdsFunction :: "'f ProfileData \<Rightarrow> string \<times> string \<Rightarrow> 'f Callstack \<Rightarrow> bool" where
  "holdsFunction pd mf cs =
     (mf \<in> (\<lambda>frame. (Module frame, Function frame)) ` set (ResolveCallstack pd cs))"

definition hotspotKey :: "'f Hotspot \<Rightarrow> string" where
  "hotspotKey hs = hsModule hs @ ''!'' @ hsFunction hs"

definition timeOf :: "(string \<times> ('f::zero) Hotspot) list \<Rightarrow> string \<Rightarrow> 'f" where
  "timeOf hm k = (case map_of hm k of None \<Rightarrow> 0 | Some h \<Rightarrow> TotalTime h)"

definition samplesOf :: "(string \<times> 'f Hotspot) list \<Rightarrow> string \<Rightarrow> int" where
  "samplesOf hm k = (case map_of hm k of None \<Rightarrow> 0 | Some h \<Rightarrow> SampleCount h)"

text \<open>
  Every entry of the map is filed under the signature of its hotspot, and its
  percentage is still the zero it was created with.
\<close>

definition keyed :: "(string \<times> ('f::zero) Hotspot) list \<Rightarrow> bool" where
  "keyed hm = (\<forall>(k, h) \<in> set hm. k = hotspotKey h \<and> Percentage h = 0)"

text \<open>
  The durations of the samples added up as the code adds them: from zero, in the order
  of the samples.
\<close>

definition addUp :: "('f::{zero,plus}) list \<Rightarrow> 'f" where
  "addUp ds = foldl (+) 0 ds"

definition totalDuration :: "('f::{zero,plus}) ProfileData \<Rightarrow> 'f" where
  "totalDuration pd = addUp (map GetDuration (Callstacks pd))"

text \<open>
  No module name among the resolved frames of a profile holds the character \<open>!\<close>,
  which separates module and function in a signature.
\<close>

definition plainModules :: "'f ProfileData \<Rightarrow> bool" where
  "plainModules pd =
     (\<forall>cs \<in> set (Callstacks pd). \<forall>frame \<in> set (ResolveCallstack pd cs).
        CHR ''!'' \<notin> set (Module frame))"

text \<open>
  A profile whose only sample, of duration 1.0, holds two different addresses of the
  same function.
\<close>

definition recursiveProfile :: "real ProfileData" where
  "recursiveProfile =
     buildSymbolMap (emptyProfile\<lparr>
       Symbols := [\<lparr>Address = ''0x1000'', ModuleName = ''app.exe'', ProcName = ''fib'',
                    FilePath = ''src/fib.c'', LineNumber = 10\<rparr>,
                   \<lparr>Address = ''0x1010'', ModuleName = ''app.exe'', ProcName = ''fib'',
                    FilePath = ''src/fib.c'', LineNumber = 12\<rparr>],
       Callstacks := [\<lparr>Addresses = [4112, 4096], ThreadCounts = [(1, 1)]\<rparr>]\<rparr>)"

text \<open>
  Two functions with one signature: \<open>c\<close> of the module \<open>a!b\<close> at address 1 and \<open>b!c\<close>
  of the module \<open>a\<close> at address 2. The first profile has one sample of duration 1.0
  with the first function at one position and the second at two; the second profile
  has three samples of the first function and two of the second.
\<close>

definition twinSymbols :: "Symbol list" where
  "twinSymbols =
     [\<lparr>Address = ''0x1'', ModuleName = ''a!b'', ProcName = ''c'', FilePath = ''x.c'',
       LineNumber = 1\<rparr>,
      \<lparr>Address = ''0x2'', ModuleName = ''a'', ProcName = ''b!c'', FilePath = ''y.c'',
       LineNumber = 2\<rparr>]"

definition twinProfile :: "real ProfileData" where
  "twinProfile =
     buildSymbolMap (emptyProfile\<lparr>Symbols := twinSymbols,
       Callstacks := [\<lparr>Addresses = [1, 2, 2], ThreadCounts = [(1, 1)]\<rparr>]\<rparr>)"

subsection \<open>Maps of call frequencies\<close>

text \<open>
  The signature of a frequency entry, the count that a map of frequencies holds for a
  signature (zero without an entry), and the condition that every entry is filed under
  its own signature with the percentage still unset.
\<close>

definition frequencyKey :: "'f FunctionCallFrequency \<Rightarrow> string" where
  "frequencyKey f = fcModule f @ ''!'' @ fcFunction f"

definition countOf :: "(string \<times> 'f FunctionCallFrequency) list \<Rightarrow> string \<Rightarrow> int" where
  "countOf fm k = (case map_of fm k of None \<Rightarrow> 0 | Some f \<Rightarrow> Count f)"

definition keyedFreq :: "(string \<times> ('f::zero) FunctionCallFrequency) list \<Rightarrow> bool" where
  "keyedFreq fm = (\<forall>(k, f) \<in> set fm. k = frequencyKey f \<and> fcPercentage f = 0)"

text \<open>
  The test of the Hot Loop rule is exact up to \<open>n\<close> samples when, for every number
  \<open>t\<close> of samples from 1 to \<open>n\<close> and every count \<open>c\<close> from 1 to \<open>t\<close>, the comparison
  \<open>(float64(c) / float64(t)) * 100.0 > 80.0\<close> made in \<open>float64\<close> has the outcome of
  the comparison of the fraction \<open>c/t\<close> with four fifths.
\<close>

definition exactThreshold :: "(int \<Rightarrow> ('f::{times,inverse,ord})) \<Rightarrow> int \<Rightarrow> bool" where
  "exactThreshold float64 n =
     (\<forall>t \<in> {1..n}. \<forall>c \<in> {1..t}.
        ((float64 c / float64 t) * float64 100 > float64 80) = (5 * c > 4 * t))"

text \<open>
  Two profiles without symbols. In the first, of five samples, the function at
  address 2 is in four; in the second, of twenty samples, it is in seventeen. The
  function at address 1 is in every sample of both.
\<close>

definition stackOf :: "uint64 list \<Rightarrow> real Callstack" where
  "stackOf addrs = \<lparr>Addresses = addrs, ThreadCounts = [(1, 1)]\<rparr>"

definition profile80 :: "real ProfileData" where
  "profile80 = emptyProfile\<lparr>Callstacks := replicate 4 (stackOf [1, 2]) @ [stackOf [1]]\<rparr>"

definition profile85 :: "real ProfileData" where
  "profile85 =
     emptyProfile\<lparr>Callstacks := replicate 17 (stackOf [1, 2]) @ replicate 3 (stackOf [1])\<rparr>"

definition twinLoopProfile :: "real ProfileData" where
  "twinLoopProfile =
     buildSymbolMap (emptyProfile\<lparr>Symbols := twinSymbols,
       Callstacks := replicate 3 (stackOf [1]) @ replicate 2 (stackOf [2])\<rparr>)"

section \<open>Properties of the resolver and of the index\<close>

lemma resolveLoop_map:
  "resolveLoop pd addrs frames = frames @ map (resolveFrame pd) addrs"
  by (induction addrs arbitrary: frames) simp_all

lemma ResolveCallstack_map:
  "ResolveCallstack pd cs = map (resolveFrame pd) (Addresses cs)"
  by (simp add: ResolveCallstack_def resolveLoop_map)

lemma buildSymbolMapLoop_step:
  "buildSymbolMapLoop (symb # rest) m =
     buildSymbolMapLoop rest (case symbolAddr symb of None \<Rightarrow> m | Some a \<Rightarrow> m(a \<mapsto> symb))"
  by (simp add: symbolAddr_def split: sum.splits)

lemma buildSymbolMapLoop_lookup:
  "buildSymbolMapLoop syms m a =
     (case filter (\<lambda>s. symbolAddr s = Some a) syms of
        [] \<Rightarrow> m a
      | x # xs \<Rightarrow> Some (last (x # xs)))"
proof (induction syms arbitrary: m)
  case Nil
  show ?case by simp
next
  case (Cons symb rest)
  show ?case
    unfolding buildSymbolMapLoop_step Cons.IH
    by (cases "symbolAddr symb") (auto split: list.splits)
qed

subsection \<open>The placeholder of an unresolved address can be read back\<close>

lemma parseUintLoop_append:
  "parseUintLoop b (xs @ ys) n =
     (case parseUintLoop b xs n of Inl e \<Rightarrow> Inl e | Inr m \<Rightarrow> parseUintLoop b ys m)"
  by (induction xs arbitrary: n) (auto split: option.splits)

lemma digitVal_upperHexDigit: "d < 16 \<Longrightarrow> digitVal (upperHexDigit d) = Some d"
proof -
  assume "d < 16"
  then have "d \<in> {0,1,2,3,4,5,6,7,8,9,10,11,12,13,14,15}" by simp arith
  then show ?thesis by (auto simp: digitVal_def upperHexDigit_def)
qed

lemma parseUintLoop_fmtHexUpper:
  "n \<le> maxUint64 \<Longrightarrow> parseUintLoop 16 (fmtHexUpper n) 0 = Inr n"
proof (induction n rule: fmtHexUpper.induct)
  case (1 n)
  show ?case
  proof (cases "n < 16")
    case True
    then show ?thesis using 1(2)
      by (subst fmtHexUpper.simps) (simp add: digitVal_upperHexDigit maxUint64_def)
  next
    case False
    have small: "n div 16 \<le> maxUint64" using 1(2) by simp
    have ih: "parseUintLoop 16 (fmtHexUpper (n div 16)) 0 = Inr (n div 16)"
      using 1(1) [OF False small] .
    have bound: "\<not> (maxUint64 div 16 + 1 \<le> n div 16)"
      using 1(2) by (simp add: maxUint64_def)
    show ?thesis
      using False ih bound 1(2)
      by (subst fmtHexUpper.simps)
         (simp add: parseUintLoop_append digitVal_upperHexDigit)
  qed
qed

lemma fmtHexUpper_nonempty: "fmtHexUpper n \<noteq> []"
  by (subst fmtHexUpper.simps) simp

lemma ParseUint_fmtHexUpper:
  "ParseUint (fmtHexUpper (unat (a :: uint64))) 16 = Inr (unat a)"
proof -
  have "unat a \<le> maxUint64"
    using unsigned_less [of a, where ?'a = nat] by (simp add: maxUint64_def)
  then show ?thesis
    by (simp add: ParseUint_def fmtHexUpper_nonempty parseUintLoop_fmtHexUpper)
qed

lemma exampleProfile_symbolMap:
  "symbolMap exampleProfile = [4096 \<mapsto> exampleSymbol]"
  by (simp add: exampleProfile_def buildSymbolMap_def emptyProfile_def exampleSymbol_def
      HasPrefix_def TrimPrefix_def ParseUint_def digitVal_def maxUint64_def)

lemma fmtHexUpper_8192: "fmtHexUpper 8192 = ''2000''"
  by (simp add: fmtHexUpper.simps upperHexDigit_def)

section \<open>C1: the resolver\<close>

text \<open>
  Claim C1. For every profile and every sample, \<open>ResolveCallstack\<close> returns one frame
  per raw address, in the order of the addresses (leaf first); a sample without
  addresses gives the empty sequence. The frame at position \<open>i\<close> carries address \<open>i\<close>;
  when that address is in the index, its module, function, source file and line are
  those of the indexed symbol; otherwise the module is the marker \<open>?\<close>, the function is
  the label \<open>[0x\<close>\<dots>\<open>]\<close> around the upper-case hexadecimal digits of the address (which
  read back, in base 16, as the address), the source file is empty and the line is 0.
\<close>

theorem ResolveCallstack_frames:
  "length (ResolveCallstack pd cs) = length (Addresses cs) \<and>
   ResolveCallstack pd (cs\<lparr>Addresses := []\<rparr>) = [] \<and>
   (\<forall>i < length (Addresses cs).
      frAddress (ResolveCallstack pd cs ! i) = Addresses cs ! i \<and>
      (case symbolMap pd (Addresses cs ! i) of
         Some symb \<Rightarrow>
           Module (ResolveCallstack pd cs ! i) = ModuleName symb \<and>
           Function (ResolveCallstack pd cs ! i) = ProcName symb \<and>
           SourceFile (ResolveCallstack pd cs ! i) = FilePath symb \<and>
           frLineNumber (ResolveCallstack pd cs ! i) = LineNumber symb
       | None \<Rightarrow>
           Module (ResolveCallstack pd cs ! i) = ''?'' \<and>
           Function (ResolveCallstack pd cs ! i)
             = ''[0x'' @ fmtHexUpper (unat (Addresses cs ! i)) @ '']'' \<and>
           ParseUint (fmtHexUpper (unat (Addresses cs ! i))) 16 = Inr (unat (Addresses cs ! i)) \<and>
           SourceFile (ResolveCallstack pd cs ! i) = '''' \<and>
           frLineNumber (ResolveCallstack pd cs ! i) = 0))"
  by (simp add: ResolveCallstack_map resolveFrame_def ParseUint_fmtHexUpper split: option.splits)

text \<open>
  The sample \<open>0.5 0x1000 0x2000\<close> of the example profile: the first frame is resolved,
  the second is the placeholder for \<open>0x2000\<close>.
\<close>

theorem ResolveCallstack_frames_witness:
  "ResolveCallstack exampleProfile \<lparr>Addresses = [4096, 8192], ThreadCounts = [(1, 1/2)]\<rparr>
     = [\<lparr>frAddress = 4096, Module = ''app.exe'', Function = ''main'',
          SourceFile = ''src/x.c'', frLineNumber = 42\<rparr>,
        \<lparr>frAddress = 8192, Module = ''?'', Function = ''[0x2000]'',
          SourceFile = '''', frLineNumber = 0\<rparr>]"
proof -
  let ?cs = "\<lparr>Addresses = [4096, 8192], ThreadCounts = [(1, 1/2)]\<rparr> :: real Callstack"
  let ?r = "ResolveCallstack exampleProfile ?cs"
  note th = ResolveCallstack_frames [of exampleProfile ?cs]
  have len: "length ?r = 2"
    using th by simp
  have f0: "?r ! 0 = \<lparr>frAddress = 4096, Module = ''app.exe'', Function = ''main'',
          SourceFile = ''src/x.c'', frLineNumber = 42\<rparr>"
    using th [THEN conjunct2, THEN conjunct2, rule_format, of 0]
    by (simp add: exampleProfile_symbolMap exampleSymbol_def)
  have f1: "?r ! 1 = \<lparr>frAddress = 8192, Module = ''?'', Function = ''[0x2000]'',
          SourceFile = '''', frLineNumber = 0\<rparr>"
    using th [THEN conjunct2, THEN conjunct2, rule_format, of 1]
    by (simp add: exampleProfile_symbolMap fmtHexUpper_8192)
  show ?thesis
    using len f0 f1 by (simp add: list_eq_iff_nth_eq less_Suc_eq numeral_2_eq_2)
qed

section \<open>C7: the address index, collisions and skipped symbols\<close>

text \<open>
  Claim C7. The index built from the symbol list holds at most one symbol per address
  (it is a map). For every address, the symbol it holds is the last symbol of the list
  whose address field parses to that address, and none when there is no such symbol.
  A symbol whose address field does not parse takes no part in the index, and the
  symbol list itself is left as it was (such a symbol stays in it).
\<close>

theorem buildSymbolMap_last_wins:
  "Symbols (buildSymbolMap pd) = Symbols pd \<and>
   symbolMap (buildSymbolMap pd) a =
     (case filter (\<lambda>s. symbolAddr s = Some a) (Symbols pd) of
        [] \<Rightarrow> None
      | x # xs \<Rightarrow> Some (last (x # xs)))"
  by (simp add: buildSymbolMap_def buildSymbolMapLoop_lookup)

lemma parseUintLoop_bound:
  "parseUintLoop b s n0 = Inr n \<Longrightarrow> n0 \<le> maxUint64 \<Longrightarrow> n \<le> maxUint64"
  by (induction s arbitrary: n0) (auto split: option.splits if_splits)

lemma ParseUint_bound: "ParseUint s b = Inr n \<Longrightarrow> n \<le> maxUint64"
  by (auto simp: ParseUint_def split: if_splits sum.splits dest: parseUintLoop_bound)

lemma unat_of_nat_uint64: "n \<le> maxUint64 \<Longrightarrow> unat (of_nat n :: uint64) = n"
  by (simp add: maxUint64_def unat_of_nat)

lemma TrimPrefix_0x: "HasPrefix s ''0x'' \<Longrightarrow> TrimPrefix s ''0x'' = drop 2 s"
  by (simp add: TrimPrefix_def numeral_2_eq_2)

lemma symbolAddr_Some_iff:
  "symbolAddr s = Some a \<longleftrightarrow>
     HasPrefix (Address s) ''0x'' \<and> ParseUint (drop 2 (Address s)) 16 = Inr (unat a)"
proof
  assume "symbolAddr s = Some a"
  then obtain n where p: "HasPrefix (Address s) ''0x''"
    and n: "ParseUint (drop 2 (Address s)) 16 = Inr n" and a: "a = of_nat n"
    by (auto simp: symbolAddr_def TrimPrefix_0x split: if_splits sum.splits)
  from n have "n \<le> maxUint64" by (rule ParseUint_bound)
  then have "unat a = n" using a by (simp add: unat_of_nat_uint64)
  with p n show "HasPrefix (Address s) ''0x'' \<and> ParseUint (drop 2 (Address s)) 16 = Inr (unat a)"
    by simp
next
  assume "HasPrefix (Address s) ''0x'' \<and> ParseUint (drop 2 (Address s)) 16 = Inr (unat a)"
  then show "symbolAddr s = Some a"
    by (simp add: symbolAddr_def TrimPrefix_0x)
qed

lemma symbolAddr_of_nat:
  "HasPrefix (Address s) ''0x'' \<Longrightarrow> ParseUint (drop 2 (Address s)) 16 = Inr n
   \<Longrightarrow> symbolAddr s = Some (of_nat n)"
  by (simp add: symbolAddr_def TrimPrefix_0x)

lemma symbolAddr_no_prefix: "\<not> HasPrefix (Address s) ''0x'' \<Longrightarrow> symbolAddr s = None"
  by (simp add: symbolAddr_def)

lemma buildSymbolMapLoop_append:
  "buildSymbolMapLoop (xs @ ys) m = buildSymbolMapLoop ys (buildSymbolMapLoop xs m)"
  by (induction xs arbitrary: m) (simp_all add: buildSymbolMapLoop_step del: buildSymbolMapLoop.simps(2))

lemma index_Some_D:
  assumes "symbolMap (buildSymbolMap pd) a = Some s"
  shows "s \<in> set (Symbols pd) \<and> symbolAddr s = Some a"
proof -
  let ?f = "filter (\<lambda>s. symbolAddr s = Some a) (Symbols pd)"
  from assms have ne: "?f \<noteq> []" and s: "s = last ?f"
    by (auto simp: buildSymbolMap_def buildSymbolMapLoop_lookup split: list.splits)
  from ne have "last ?f \<in> set ?f" by (rule last_in_set)
  with s show ?thesis by simp
qed

lemma index_Some_I:
  assumes "s \<in> set (Symbols pd)" and "symbolAddr s = Some a"
  shows "\<exists>t. symbolMap (buildSymbolMap pd) a = Some t"
proof -
  from assms have "filter (\<lambda>s. symbolAddr s = Some a) (Symbols pd) \<noteq> []"
    by (auto simp: filter_empty_conv)
  then show ?thesis
    by (auto simp: buildSymbolMap_def buildSymbolMapLoop_lookup split: list.splits)
qed

lemma index_None_I:
  assumes "\<forall>t \<in> set (Symbols pd). symbolAddr t \<noteq> Some a"
  shows "symbolMap (buildSymbolMap pd) a = None"
proof -
  from assms have "filter (\<lambda>s. symbolAddr s = Some a) (Symbols pd) = []"
    by (auto simp: filter_empty_conv)
  then show ?thesis
    by (simp add: buildSymbolMap_def buildSymbolMapLoop_lookup)
qed

section \<open>C10: the index and the 0x prefix\<close>

text \<open>
  Claim C10. A symbol is in the index only when its address text starts with the
  literal prefix \<open>0x\<close> and the rest parses as hexadecimal (base 16, 64 bits). Every
  symbol of that form has its address as a key of the index, and is itself the symbol
  held there when no other symbol of the list parses to the same address (which one is
  held when several do is the matter of C7). A symbol whose address text lacks
  the prefix is passed over in silence, even when the text is valid hexadecimal: the
  index is the one built without it, and an address that no prefixed symbol parses to
  resolves to the fallback frame.
\<close>

theorem index_requires_0x_prefix:
  "(symbolMap (buildSymbolMap pd) a = Some s \<longrightarrow>
      s \<in> set (Symbols pd) \<and> HasPrefix (Address s) ''0x'' \<and>
      ParseUint (drop 2 (Address s)) 16 = Inr (unat a))
   \<and> (s \<in> set (Symbols pd) \<and> HasPrefix (Address s) ''0x'' \<and>
        ParseUint (drop 2 (Address s)) 16 = Inr n
        \<longrightarrow> (\<exists>t. symbolMap (buildSymbolMap pd) (of_nat n) = Some t))
   \<and> (\<not> HasPrefix (Address s) ''0x''
        \<longrightarrow> symbolMap (buildSymbolMap (pd\<lparr>Symbols := pre @ s # post\<rparr>))
              = symbolMap (buildSymbolMap (pd\<lparr>Symbols := pre @ post\<rparr>)))
   \<and> ((\<forall>t \<in> set (Symbols pd). HasPrefix (Address t) ''0x''
          \<longrightarrow> ParseUint (drop 2 (Address t)) 16 \<noteq> Inr (unat a))
        \<longrightarrow> resolveFrame (buildSymbolMap pd) a
              = \<lparr>frAddress = a, Module = ''?'',
                 Function = ''[0x'' @ fmtHexUpper (unat a) @ '']'',
                 SourceFile = '''', frLineNumber = 0\<rparr>)
   \<and> (s \<in> set (Symbols pd) \<and> HasPrefix (Address s) ''0x'' \<and>
        ParseUint (drop 2 (Address s)) 16 = Inr n \<and>
        (\<forall>t \<in> set (Symbols pd). HasPrefix (Address t) ''0x'' \<and>
           ParseUint (drop 2 (Address t)) 16 = Inr n \<longrightarrow> t = s)
        \<longrightarrow> symbolMap (buildSymbolMap pd) (of_nat n) = Some s)"
proof (intro conjI impI)
  assume "symbolMap (buildSymbolMap pd) a = Some s"
  then have "s \<in> set (Symbols pd) \<and> symbolAddr s = Some a" by (rule index_Some_D)
  then show "s \<in> set (Symbols pd)" and "HasPrefix (Address s) ''0x''"
    and "ParseUint (drop 2 (Address s)) 16 = Inr (unat a)"
    by (simp_all add: symbolAddr_Some_iff)
next
  assume "s \<in> set (Symbols pd) \<and> HasPrefix (Address s) ''0x'' \<and>
        ParseUint (drop 2 (Address s)) 16 = Inr n"
  then show "\<exists>t. symbolMap (buildSymbolMap pd) (of_nat n) = Some t"
    by (intro index_Some_I [of s]) (simp_all add: symbolAddr_of_nat)
next
  assume "\<not> HasPrefix (Address s) ''0x''"
  then have "symbolAddr s = None" by (rule symbolAddr_no_prefix)
  then show "symbolMap (buildSymbolMap (pd\<lparr>Symbols := pre @ s # post\<rparr>))
              = symbolMap (buildSymbolMap (pd\<lparr>Symbols := pre @ post\<rparr>))"
    by (simp add: buildSymbolMap_def buildSymbolMapLoop_append buildSymbolMapLoop_step
        del: buildSymbolMapLoop.simps)
next
  assume "\<forall>t \<in> set (Symbols pd). HasPrefix (Address t) ''0x''
          \<longrightarrow> ParseUint (drop 2 (Address t)) 16 \<noteq> Inr (unat a)"
  then have "\<forall>t \<in> set (Symbols pd). symbolAddr t \<noteq> Some a"
    by (simp add: symbolAddr_Some_iff)
  then have "symbolMap (buildSymbolMap pd) a = None" by (rule index_None_I)
  then show "resolveFrame (buildSymbolMap pd) a
              = \<lparr>frAddress = a, Module = ''?'',
                 Function = ''[0x'' @ fmtHexUpper (unat a) @ '']'',
                 SourceFile = '''', frLineNumber = 0\<rparr>"
    by (simp add: resolveFrame_def)
next
  assume h: "s \<in> set (Symbols pd) \<and> HasPrefix (Address s) ''0x'' \<and>
        ParseUint (drop 2 (Address s)) 16 = Inr n \<and>
        (\<forall>t \<in> set (Symbols pd). HasPrefix (Address t) ''0x'' \<and>
           ParseUint (drop 2 (Address t)) 16 = Inr n \<longrightarrow> t = s)"
  then have sa: "symbolAddr s = Some (of_nat n)" by (simp add: symbolAddr_of_nat)
  from h have "n \<le> maxUint64" by (blast intro: ParseUint_bound)
  then have un: "unat (of_nat n :: uint64) = n" by (rule unat_of_nat_uint64)
  from h sa obtain t where t: "symbolMap (buildSymbolMap pd) (of_nat n) = Some t"
    using index_Some_I [of s pd "of_nat n"] by blast
  then have "t \<in> set (Symbols pd) \<and> symbolAddr t = Some (of_nat n)" by (rule index_Some_D)
  then have "t \<in> set (Symbols pd) \<and> HasPrefix (Address t) ''0x'' \<and>
        ParseUint (drop 2 (Address t)) 16 = Inr n"
    by (simp add: symbolAddr_Some_iff un)
  with h have "t = s" by blast
  with t show "symbolMap (buildSymbolMap pd) (of_nat n) = Some s" by simp
qed

lemma ParseUint_1000: "ParseUint ''1000'' 16 = Inr 4096"
  by (simp add: ParseUint_def digitVal_def maxUint64_def)

lemma ParseUint_2000: "ParseUint ''2000'' 16 = Inr 8192"
  by (simp add: ParseUint_def digitVal_def maxUint64_def)

lemma ParseUint_00: "ParseUint ''00'' 16 = Inr 0"
  by (simp add: ParseUint_def digitVal_def maxUint64_def)

lemma fmtHexUpper_4096: "fmtHexUpper 4096 = ''1000''"
  by (simp add: fmtHexUpper.simps upperHexDigit_def)

text \<open>
  The symbol with address text \<open>1000\<close> is in the symbol list and its text reads as
  4096 in base 16, yet address 4096 resolves to the fallback frame and the index is the
  one of the other symbol alone; the symbol at \<open>0x2000\<close>, the only one of its
  address, is the one found under 8192.
\<close>

theorem index_requires_0x_prefix_witness:
  "ParseUint (Address bareHexSymbol) 16 = Inr 4096 \<and>
   bareHexSymbol \<in> set (Symbols bareHexProfile) \<and>
   resolveFrame (buildSymbolMap bareHexProfile) 4096
     = \<lparr>frAddress = 4096, Module = ''?'', Function = ''[0x1000]'',
        SourceFile = '''', frLineNumber = 0\<rparr> \<and>
   symbolMap (buildSymbolMap bareHexProfile)
     = symbolMap (buildSymbolMap (bareHexProfile\<lparr>Symbols := [exampleSymbol\<lparr>Address := ''0x2000''\<rparr>]\<rparr>)) \<and>
   (\<exists>t. symbolMap (buildSymbolMap bareHexProfile) 8192 = Some t \<and>
        t \<in> set (Symbols bareHexProfile) \<and> HasPrefix (Address t) ''0x'' \<and>
        ParseUint (drop 2 (Address t)) 16 = Inr 8192) \<and>
   symbolMap (buildSymbolMap bareHexProfile) 8192 = Some (exampleSymbol\<lparr>Address := ''0x2000''\<rparr>)"
proof -
  let ?s2 = "exampleSymbol\<lparr>Address := ''0x2000''\<rparr>"
  have a: "ParseUint (Address bareHexSymbol) 16 = Inr 4096"
    by (simp add: bareHexSymbol_def ParseUint_1000)
  have b: "bareHexSymbol \<in> set (Symbols bareHexProfile)"
    by (simp add: bareHexProfile_def emptyProfile_def)
  have hyp4: "\<forall>t \<in> set (Symbols bareHexProfile). HasPrefix (Address t) ''0x''
          \<longrightarrow> ParseUint (drop 2 (Address t)) 16 \<noteq> Inr (unat (4096 :: uint64))"
    by (simp add: bareHexProfile_def emptyProfile_def bareHexSymbol_def exampleSymbol_def
        HasPrefix_def ParseUint_2000 ParseUint_00)
  have c: "resolveFrame (buildSymbolMap bareHexProfile) 4096
     = \<lparr>frAddress = 4096, Module = ''?'', Function = ''[0x1000]'',
        SourceFile = '''', frLineNumber = 0\<rparr>"
    using index_requires_0x_prefix [of bareHexProfile 4096, THEN conjunct2, THEN conjunct2,
        THEN conjunct2, THEN conjunct1, THEN mp, OF hyp4]
    by (simp add: fmtHexUpper_4096)
  have hyp3: "\<not> HasPrefix (Address bareHexSymbol) ''0x''"
    by (simp add: bareHexSymbol_def HasPrefix_def)
  have d: "symbolMap (buildSymbolMap bareHexProfile)
     = symbolMap (buildSymbolMap (bareHexProfile\<lparr>Symbols := [?s2]\<rparr>))"
    using index_requires_0x_prefix [of bareHexProfile _ bareHexSymbol _ "[]" "[?s2]",
        THEN conjunct2, THEN conjunct2, THEN conjunct1, rule_format, OF hyp3]
    by (simp add: bareHexProfile_def)
  have hyp2: "?s2 \<in> set (Symbols bareHexProfile) \<and> HasPrefix (Address ?s2) ''0x'' \<and>
        ParseUint (drop 2 (Address ?s2)) 16 = Inr 8192"
    by (simp add: bareHexProfile_def emptyProfile_def HasPrefix_def ParseUint_2000)
  obtain t where t: "symbolMap (buildSymbolMap bareHexProfile) 8192 = Some t"
    using index_requires_0x_prefix [of bareHexProfile _ ?s2 8192,
        THEN conjunct2, THEN conjunct1, rule_format, OF hyp2]
    by auto
  have e: "t \<in> set (Symbols bareHexProfile) \<and> HasPrefix (Address t) ''0x'' \<and>
        ParseUint (drop 2 (Address t)) 16 = Inr 8192"
    using index_requires_0x_prefix [of bareHexProfile 8192 t, THEN conjunct1, rule_format, OF t]
    by simp
  have hyp5: "?s2 \<in> set (Symbols bareHexProfile) \<and> HasPrefix (Address ?s2) ''0x'' \<and>
        ParseUint (drop 2 (Address ?s2)) 16 = Inr 8192 \<and>
        (\<forall>t \<in> set (Symbols bareHexProfile). HasPrefix (Address t) ''0x'' \<and>
           ParseUint (drop 2 (Address t)) 16 = Inr 8192 \<longrightarrow> t = ?s2)"
    using hyp2 by (simp add: bareHexProfile_def emptyProfile_def bareHexSymbol_def HasPrefix_def)
  have f: "symbolMap (buildSymbolMap bareHexProfile) 8192 = Some ?s2"
    using index_requires_0x_prefix [of bareHexProfile _ ?s2 8192, THEN conjunct2, THEN conjunct2,
        THEN conjunct2, THEN conjunct2, THEN mp, OF hyp5]
    by simp
  from a b c d t e f show ?thesis by blast
qed

section \<open>C9: the tokenizer of the symbol parser\<close>

lemma symbolFields_prefix:
  "symbolFields line q cur (a @ b) = a @ symbolFields line q cur b"
  by (induction line arbitrary: q cur b) simp_all

lemma symbolFields_acc:
  "symbolFields line q cur flds = flds @ symbolFields line q cur []"
  using symbolFields_prefix [of line q cur flds "[]"] by simp

lemma symbolFields_space:
  "(q \<longleftrightarrow> odd (count_list xs (CHR 0x22))) \<Longrightarrow>
   symbolFields (xs @ CHR 0x20 # ys) q cur flds
     = symbolFields xs q cur flds @ symbolFields ys False [] []"
proof (induction xs arbitrary: q cur flds)
  case Nil
  then have "\<not> q" by simp
  then show ?case
    using symbolFields_acc [of ys False "[]" "flds @ [cur]"] by simp
next
  case (Cons x xs)
  show ?case
  proof (cases "x = CHR 0x22")
    case True
    with Cons.prems have "(\<not> q) \<longleftrightarrow> odd (count_list xs (CHR 0x22))" by simp
    from Cons.IH [OF this] True show ?thesis by simp
  next
    case False
    with Cons.prems have par: "q \<longleftrightarrow> odd (count_list xs (CHR 0x22))" by simp
    show ?thesis
    proof (cases q)
      case True
      with False Cons.IH [OF par, of "cur @ [x]" flds] show ?thesis by simp
    next
      case nq: False
      show ?thesis
      proof (cases "x = CHR 0x20")
        case True
        with nq Cons.IH [OF par, of "[]" "flds @ [cur]"] show ?thesis by simp
      next
        case nsp: False
        with False nq Cons.IH [OF par, of "cur @ [x]" flds] show ?thesis by simp
      qed
    qed
  qed
qed

lemma symbolFields_length:
  "length (symbolFields line q cur flds) = length flds + Suc (unquotedSpaces line q)"
  by (induction line arbitrary: q cur flds) simp_all

lemma symbolFields_plain:
  "CHR 0x20 \<notin> set line \<Longrightarrow> CHR 0x22 \<notin> set line \<Longrightarrow>
   symbolFields line q cur flds = flds @ [cur @ line]"
  by (induction line arbitrary: cur) auto

lemma Atoi_42: "Atoi ''42'' = Inr 42"
  by (simp add: Atoi_def)

lemma TrimSpace_symbol_line: "TrimSpace ''0x1000  mod func 42'' = ''0x1000  mod func 42''"
  by code_simp

text \<open>
  Claim C9. The tokenizer of the symbol parser takes the space character outside quotes,
  and nothing else, as the end of a field, and it does not merge neighbouring spaces:
  a line splits at every space that follows an even number of quote characters, so two
  such spaces in a row give an empty field, while a line without space and quote (a tab,
  say, in their place) is one field; the number of fields of a line is one more than
  the number of its spaces outside quotes. Hence a line of four fields with a doubled space
  is accepted as five fields, the module name being the empty string, and no
  malformed-line error is raised.
\<close>

theorem symbolFields_splits_at_every_space:
  "(even (count_list xs (CHR 0x22)) \<longrightarrow>
      symbolFields (xs @ '' '' @ ys) False [] []
        = symbolFields xs False [] [] @ symbolFields ys False [] [])
   \<and> (even (count_list xs (CHR 0x22)) \<longrightarrow>
      symbolFields (xs @ ''  '' @ ys) False [] []
        = symbolFields xs False [] [] @ [''''] @ symbolFields ys False [] [])
   \<and> (CHR 0x20 \<notin> set line \<and> CHR 0x22 \<notin> set line \<longrightarrow>
      symbolFields line False [] [] = [line])
   \<and> length (symbolFields line False [] []) = Suc (unquotedSpaces line False)
   \<and> parseSymbolsLoop [''0x1000  mod func 42''] []
        = ([\<lparr>Address = ''0x1000'', ModuleName = '''', ProcName = ''mod'',
             FilePath = ''func'', LineNumber = 42\<rparr>], None)"
proof (intro conjI impI)
  assume e: "even (count_list xs (CHR 0x22))"
  then show "symbolFields (xs @ '' '' @ ys) False [] []
        = symbolFields xs False [] [] @ symbolFields ys False [] []"
    using symbolFields_space [of False xs ys "[]" "[]"] by simp
  have "symbolFields (xs @ ''  '' @ ys) False [] []
        = symbolFields xs False [] [] @ symbolFields (CHR 0x20 # ys) False [] []"
    using e symbolFields_space [of False xs "CHR 0x20 # ys" "[]" "[]"] by simp
  also have "symbolFields (CHR 0x20 # ys) False [] [] = [''''] @ symbolFields ys False [] []"
    using symbolFields_acc [of ys False "[]" "[[]]"] by simp
  finally show "symbolFields (xs @ ''  '' @ ys) False [] []
        = symbolFields xs False [] [] @ [''''] @ symbolFields ys False [] []" .
next
  assume "CHR 0x20 \<notin> set line \<and> CHR 0x22 \<notin> set line"
  then show "symbolFields line False [] [] = [line]"
    by (simp add: symbolFields_plain)
next
  show "length (symbolFields line False [] []) = Suc (unquotedSpaces line False)"
    by (simp add: symbolFields_length)
next
  show "parseSymbolsLoop [''0x1000  mod func 42''] []
        = ([\<lparr>Address = ''0x1000'', ModuleName = '''', ProcName = ''mod'',
             FilePath = ''func'', LineNumber = 42\<rparr>], None)"
    by (simp add: TrimSpace_symbol_line Atoi_42)
qed

text \<open>
  A quoted field before a doubled space, and a field that holds a tab.
\<close>

theorem symbolFields_splits_at_every_space_witness:
  "symbolFields ''0x1000 \"My Mod\"  f'' False [] [] = [''0x1000'', ''My Mod'', '''', ''f'']
   \<and> symbolFields [CHR ''a'', CHR 0x09, CHR ''b''] False [] [] = [[CHR ''a'', CHR 0x09, CHR ''b'']]"
proof -
  have q: "even (count_list ''0x1000 \"My Mod\"'' (CHR 0x22))" by simp
  have "symbolFields (''0x1000 \"My Mod\"'' @ ''  '' @ ''f'') False [] []
      = symbolFields ''0x1000 \"My Mod\"'' False [] [] @ [''''] @ symbolFields ''f'' False [] []"
    using symbolFields_splits_at_every_space
      [of "''0x1000 \"My Mod\"''" "''f''", THEN conjunct2, THEN conjunct1, THEN mp, OF q] .
  then have a: "symbolFields ''0x1000 \"My Mod\"  f'' False [] []
      = [''0x1000'', ''My Mod'', '''', ''f'']"
    by simp
  have t: "CHR 0x20 \<notin> set [CHR ''a'', CHR 0x09, CHR ''b''] \<and>
           CHR 0x22 \<notin> set [CHR ''a'', CHR 0x09, CHR ''b'']" by simp
  have b: "symbolFields [CHR ''a'', CHR 0x09, CHR ''b''] False [] [] = [[CHR ''a'', CHR 0x09, CHR ''b'']]"
    using symbolFields_splits_at_every_space
      [of _ _ "[CHR ''a'', CHR 0x09, CHR ''b'']", THEN conjunct2, THEN conjunct2, THEN conjunct1,
        THEN mp, OF t] .
  from a b show ?thesis by simp
qed
section \<open>C5: the thread parser\<close>

lemma parseThreadsLoop_nonBlank:
  "parseThreadsLoop ls cur b ts = parseThreadsLoop (nonBlank ls) cur b ts"
  by (induction ls arbitrary: cur b ts) (auto simp: nonBlank_def split: sum.splits)

lemma TrimSpace_nonBlank: "l \<in> set (nonBlank ls) \<Longrightarrow> TrimSpace l \<noteq> []"
  by (simp add: nonBlank_def)

lemma Thread_update_both: "(cur :: Thread)\<lparr>ID := k, Name := n\<rparr> = \<lparr>ID = k, Name = n\<rparr>"
  by (cases cur) simp

lemma firstBadId_None: "firstBadId ls = None \<longleftrightarrow> (\<forall>i \<in> set ls. \<not> isl (Atoi i))"
  by (induction ls) (auto split: sum.splits)

lemma threadPairs_length: "length (threadPairs ls) = length ls div 2"
  by (induction ls rule: threadPairs.induct) simp_all

lemma parseThreadsLoop_pairs:
  assumes "\<forall>l \<in> set nb. TrimSpace l \<noteq> []"
  shows "snd (parseThreadsLoop nb cur True ts)
           = (case firstBadId (idLines nb) of
                None \<Rightarrow> None
              | Some cause \<Rightarrow>
                  Some (Errorf ''invalid thread ID in Threads.txt: %w'' [] (Some cause)))
         \<and> (firstBadId (idLines nb) = None
              \<longrightarrow> fst (parseThreadsLoop nb cur True ts) = ts @ threadPairs nb)"
  using assms
proof (induction nb arbitrary: cur ts rule: idLines.induct)
  case 1
  show ?case by simp
next
  case (2 i)
  then show ?case by (auto split: sum.splits)
next
  case (3 i n rest)
  from 3(2) have r: "\<forall>l \<in> set rest. TrimSpace l \<noteq> []" and i: "TrimSpace i \<noteq> []"
    and n: "TrimSpace n \<noteq> []" by simp_all
  show ?case
  proof (cases "Atoi i")
    case (Inl e)
    with i show ?thesis by simp
  next
    case (Inr k)
    with i n 3(1) [OF r, of "\<lparr>ID = 0, Name = ''''\<rparr>" "ts @ [\<lparr>ID = k, Name = n\<rparr>]"]
    show ?thesis by (simp add: Thread_update_both)
  qed
qed

text \<open>
  Claim C5, as amended. The thread parser skips the blank lines (those that hold
  nothing but white space) and takes the others in pairs of an id line and a name
  line. It fails exactly when an id line (the first, third, \<dots> non-blank line) is not
  an integer for \<open>strconv.Atoi\<close>, or the scanner reports an error; its error is then
  \<open>invalid thread ID in Threads.txt\<close> around the error that \<open>Atoi\<close> gives for the first
  such id line, and otherwise the scanner's. An odd count of non-blank lines is no
  error. When the parser succeeds it has added, in order, one thread for every
  complete pair, with the number read from the id line and the name line as the name;
  a trailing id line is dropped, so the threads added are half as many as the
  non-blank lines, rounded down.
\<close>

theorem parseThreads_errors:
  "(snd (parseThreads r ts) \<noteq> None
      \<longleftrightarrow> (\<exists>i \<in> set (idLines (nonBlank (rdLines r))). isl (Atoi i)) \<or> rdErr r \<noteq> None)
   \<and> snd (parseThreads r ts)
        = (case firstBadId (idLines (nonBlank (rdLines r))) of
             Some cause \<Rightarrow> Some (Errorf ''invalid thread ID in Threads.txt: %w'' [] (Some cause))
           | None \<Rightarrow> rdErr r)
   \<and> (snd (parseThreads r ts) = None
      \<longrightarrow> fst (parseThreads r ts) = ts @ threadPairs (nonBlank (rdLines r)))
   \<and> length (threadPairs (nonBlank (rdLines r))) = length (nonBlank (rdLines r)) div 2"
proof -
  let ?nb = "nonBlank (rdLines r)"
  let ?z = "\<lparr>ID = 0, Name = ''''\<rparr>"
  have nb: "\<forall>l \<in> set ?nb. TrimSpace l \<noteq> []" by (simp add: TrimSpace_nonBlank)
  note L = parseThreadsLoop_pairs [OF nb, of ?z ts]
  have eq: "parseThreads r ts =
     (case parseThreadsLoop ?nb ?z True ts of
        (x, Some err) \<Rightarrow> (x, Some err)
      | (x, None) \<Rightarrow> (x, rdErr r))"
    by (simp add: parseThreads_def parseThreadsLoop_nonBlank [symmetric])
  obtain x e where p: "parseThreadsLoop ?nb ?z True ts = (x, e)"
    by (cases "parseThreadsLoop ?nb ?z True ts")
  have bad: "(\<exists>i \<in> set (idLines ?nb). isl (Atoi i)) \<longleftrightarrow> firstBadId (idLines ?nb) \<noteq> None"
    by (simp add: firstBadId_None)
  show ?thesis
  proof (cases "firstBadId (idLines ?nb)")
    case None
    with L p have "e = None" and "x = ts @ threadPairs ?nb" by simp_all
    with None p eq bad show ?thesis by (simp add: threadPairs_length)
  next
    case (Some cause)
    with L p have "e = Some (Errorf ''invalid thread ID in Threads.txt: %w'' [] (Some cause))"
      by simp
    with Some p eq bad show ?thesis by (simp add: threadPairs_length)
  qed
qed

lemma nonBlank_dangling: "nonBlank (rdLines danglingThreads) = [''1'', ''main'', ''2'']"
  by code_simp

lemma nonBlank_nbsp: "nonBlank (rdLines nbspThreads) = [''1'', ''main'']"
  by code_simp

lemma nonBlank_bad_id: "nonBlank [''1'', ''main'', ''x2''] = [''1'', ''main'', ''x2'']"
  by code_simp

lemma Atoi_examples:
  "Atoi ''1'' = Inr 1" "Atoi ''2'' = Inr 2" "Atoi ''3'' = Inr 3" "Atoi ''42'' = Inr 42"
  "Atoi ''x'' = Inl (NumError ''Atoi'' ''x'' ErrSyntax)"
  "Atoi ''x2'' = Inl (NumError ''Atoi'' ''x2'' ErrSyntax)"
  by (simp_all add: Atoi_def)

text \<open>
  On the table of three lines \<open>1\<close>, \<open>main\<close>, \<open>2\<close> the parser succeeds with the thread
  of the first two; on the table that begins with a line holding a no-break space it
  skips that line and succeeds with the thread of the two lines after it; on the
  lines \<open>1\<close>, \<open>main\<close>, \<open>x2\<close> it fails with the error of \<open>Atoi\<close> for \<open>x2\<close>.
\<close>

theorem parseThreads_errors_witness:
  "parseThreads danglingThreads [] = ([\<lparr>ID = 1, Name = ''main''\<rparr>], None) \<and>
   parseThreads nbspThreads [] = ([\<lparr>ID = 1, Name = ''main''\<rparr>], None) \<and>
   snd (parseThreads \<lparr>rdLines = [''1'', ''main'', ''x2''], rdErr = None\<rparr> [])
     = Some (Errorf ''invalid thread ID in Threads.txt: %w'' []
               (Some (NumError ''Atoi'' ''x2'' ErrSyntax)))"
proof -
  have a1: "snd (parseThreads danglingThreads []) = None"
    using parseThreads_errors [of danglingThreads "[]", THEN conjunct2, THEN conjunct1]
    by (simp add: nonBlank_dangling Atoi_examples) (simp add: danglingThreads_def)
  have a2: "fst (parseThreads danglingThreads []) = [\<lparr>ID = 1, Name = ''main''\<rparr>]"
    using parseThreads_errors [of danglingThreads "[]", THEN conjunct2, THEN conjunct2,
        THEN conjunct1, THEN mp, OF a1]
    by (simp add: nonBlank_dangling Atoi_examples)
  have b1: "snd (parseThreads nbspThreads []) = None"
    using parseThreads_errors [of nbspThreads "[]", THEN conjunct2, THEN conjunct1]
    by (simp add: nonBlank_nbsp Atoi_examples) (simp add: nbspThreads_def)
  have b2: "fst (parseThreads nbspThreads []) = [\<lparr>ID = 1, Name = ''main''\<rparr>]"
    using parseThreads_errors [of nbspThreads "[]", THEN conjunct2, THEN conjunct2,
        THEN conjunct1, THEN mp, OF b1]
    by (simp add: nonBlank_nbsp Atoi_examples)
  have c: "snd (parseThreads \<lparr>rdLines = [''1'', ''main'', ''x2''], rdErr = None\<rparr> [])
     = Some (Errorf ''invalid thread ID in Threads.txt: %w'' []
               (Some (NumError ''Atoi'' ''x2'' ErrSyntax)))"
    using parseThreads_errors [of "\<lparr>rdLines = [''1'', ''main'', ''x2''], rdErr = None\<rparr>" "[]",
        THEN conjunct2, THEN conjunct1]
    by (simp add: nonBlank_bad_id Atoi_examples)
  from a1 a2 b1 b2 c show ?thesis by (simp add: prod_eq_iff)
qed

text \<open>
  The claim as stated fails on the first of these tables: three non-blank lines, the
  last an id line without a name, and the parser returns the first thread and no
  error.
\<close>

theorem parseThreads_odd_count_counterexample:
  "odd (length (nonBlank (rdLines danglingThreads))) \<and>
   parseThreads danglingThreads [] = ([\<lparr>ID = 1, Name = ''main''\<rparr>], None)"
  by code_simp

section \<open>C6: statistics of a profile without samples\<close>

text \<open>
  Claim C6, as amended. For a profile without samples \<open>ComputeStatistics\<close> returns,
  without error, the total symbol count equal to the number of symbols of the profile
  and every other field zero: total time, sample count, average, maximum and minimum
  stack depth, unique modules and unique functions.
\<close>

theorem ComputeStatistics_no_samples:
  "Callstacks pd = [] \<Longrightarrow>
   ComputeStatistics float64 pd =
     \<lparr>psTotalTime = 0, TotalCallstacks = 0, TotalSymbols = int (length (Symbols pd)),
      AverageStackDepth = 0, MaxStackDepth = 0, MinStackDepth = 0,
      UniqueModules = 0, UniqueFunctions = 0\<rparr>"
  by (simp add: ComputeStatistics_def zeroStatistics_def)

theorem ComputeStatistics_no_samples_witness:
  "Callstacks symbolsOnlyProfile = [] \<and>
   ComputeStatistics real_of_int symbolsOnlyProfile =
     \<lparr>psTotalTime = 0, TotalCallstacks = 0, TotalSymbols = 1,
      AverageStackDepth = 0, MaxStackDepth = 0, MinStackDepth = 0,
      UniqueModules = 0, UniqueFunctions = 0\<rparr>"
proof -
  have c: "Callstacks symbolsOnlyProfile = []"
    by (simp add: symbolsOnlyProfile_def buildSymbolMap_def emptyProfile_def)
  have s: "Symbols symbolsOnlyProfile = [exampleSymbol]"
    by (simp add: symbolsOnlyProfile_def buildSymbolMap_def emptyProfile_def)
  show ?thesis
    using ComputeStatistics_no_samples [OF c, of real_of_int] c by (simp add: s)
qed

text \<open>
  The claim as stated fails on a profile with one symbol and no sample: the total
  symbol count is 1.
\<close>

theorem ComputeStatistics_all_zero_counterexample:
  "Callstacks symbolsOnlyProfile = [] \<and>
   TotalSymbols (ComputeStatistics real_of_int symbolsOnlyProfile) = 1 \<and>
   ComputeStatistics real_of_int symbolsOnlyProfile \<noteq> zeroStatistics"
  by (simp add: symbolsOnlyProfile_def buildSymbolMap_def emptyProfile_def
      ComputeStatistics_def zeroStatistics_def)

section \<open>C4: the profile builder is all or nothing\<close>

lemma parseStatsLoop_error:
  "snd (parseStatsLoop ls st) = snd (parseStatsLoop ls st')"
proof (induction ls arbitrary: st st')
  case Nil
  show ?case by simp
next
  case (Cons line rest)
  show ?case
  proof (cases "cutAt '': '' line")
    case None
    then show ?thesis using Cons.IH [of st st'] by simp
  next
    case (Some kv)
    obtain key val where kv: "kv = (key, val)" by (cases kv)
    show ?thesis
      using Some kv Cons.IH [of st st']
        Cons.IH [of "st\<lparr>Filename := val\<rparr>" "st'\<lparr>Filename := val\<rparr>"]
        Cons.IH [of "st\<lparr>Duration := val\<rparr>" "st'\<lparr>Duration := val\<rparr>"]
        Cons.IH [of "st\<lparr>Date := val\<rparr>" "st'\<lparr>Date := val\<rparr>"]
        Cons.IH [of "st\<lparr>NumSamples := n\<rparr>" "st'\<lparr>NumSamples := n\<rparr>" for n]
      by (simp split: sum.splits)
  qed
qed

lemma parseStats_error: "snd (parseStats rc st) = snd (parseStats rc st')"
  using parseStatsLoop_error [of "rdLines rc" st st']
  by (cases "parseStatsLoop (rdLines rc) st"; cases "parseStatsLoop (rdLines rc) st'")
     (auto simp: parseStats_def split: option.splits)

lemma parseSymbolsLoop_prefix:
  "parseSymbolsLoop ls (a @ b) = (a @ fst (parseSymbolsLoop ls b), snd (parseSymbolsLoop ls b))"
  by (induction ls arbitrary: b) (simp_all add: Let_def split: sum.splits)

lemma parseSymbols_prefix:
  "parseSymbols rc syms = (syms @ fst (parseSymbols rc []), snd (parseSymbols rc []))"
  using parseSymbolsLoop_prefix [of "rdLines rc" syms "[]"]
  by (cases "parseSymbolsLoop (rdLines rc) []")
     (auto simp: parseSymbols_def split: option.splits)

lemma parseThreadsLoop_prefix:
  "parseThreadsLoop ls cur b (a @ ts)
     = (a @ fst (parseThreadsLoop ls cur b ts), snd (parseThreadsLoop ls cur b ts))"
  by (induction ls arbitrary: cur b ts) (simp_all split: sum.splits)

lemma parseThreads_prefix:
  "parseThreads rc ts = (ts @ fst (parseThreads rc []), snd (parseThreads rc []))"
  using parseThreadsLoop_prefix [of "rdLines rc" "\<lparr>ID = 0, Name = ''''\<rparr>" True ts "[]"]
  by (cases "parseThreadsLoop (rdLines rc) \<lparr>ID = 0, Name = ''''\<rparr> True []")
     (auto simp: parseThreads_def split: option.splits)

lemma sectionReaders_Cons:
  "sectionReaders name (member # rest) =
     (case zfOpen member of
        Inl err \<Rightarrow> sectionReaders name rest
      | Inr rc \<Rightarrow> if zfName member = name then rc # sectionReaders name rest
                  else sectionReaders name rest)"
  by (simp add: sectionReaders_def split: sum.splits)

lemma sectionReaders_Nil: "sectionReaders name [] = []"
  by (simp add: sectionReaders_def)

text \<open>
  The loop over the members, from any profile: it stops with the error of the first
  member that has one, and otherwise ends with the content of every section added to
  what the profile held.
\<close>

lemma readFiles_error:
  "firstError pf files = Some err \<Longrightarrow> readFiles pf files pd = Inl err"
proof (induction files arbitrary: pd)
  case Nil
  then show ?case by simp
next
  case (Cons member rest)
  show ?case
  proof (cases "zfOpen member")
    case (Inl e)
    with Cons.prems show ?thesis by (simp add: memberError_def)
  next
    case (Inr rc)
    note st = parseStats_error [of rc "pdStats pd" zeroStats]
    note sy = parseSymbols_prefix [of rc "Symbols pd"]
    note th = parseThreads_prefix [of rc "Threads pd"]
    show ?thesis
    proof (cases "memberError pf member")
      case (Some e)
      with Cons.prems have e: "e = err" by simp
      from Some Inr st sy th show ?thesis
        unfolding e
        by (cases "parseStats rc (pdStats pd)"; cases "parseSymbols rc []";
            cases "parseThreads rc []"; cases "parseCallstacks pf rc")
           (auto simp: memberError_def sectionError_def wrapError_def
                 split: option.splits if_splits)
    next
      case None
      with Cons.prems have fe: "firstError pf rest = Some err" by simp
      note IH = Cons.IH [OF fe]
      from None Inr st sy th show ?thesis
        by (cases "parseStats rc (pdStats pd)"; cases "parseSymbols rc []";
            cases "parseThreads rc []"; cases "parseCallstacks pf rc")
           (auto simp: memberError_def sectionError_def wrapError_def IH
                 split: option.splits if_splits)
    qed
  qed
qed

lemma readFiles_built:
  "firstError pf files = None \<Longrightarrow>
   readFiles pf files pd =
     Inr \<lparr>pdStats = foldl (\<lambda>stats rc. fst (parseStats rc stats)) (pdStats pd)
                      (sectionReaders ''Stats.txt'' files),
          Symbols = Symbols pd @ builtSymbols files,
          Callstacks = (if sectionReaders ''Callstacks.txt'' files = [] then Callstacks pd
                        else samplesOfReader pf (last (sectionReaders ''Callstacks.txt'' files))),
          Threads = Threads pd @ builtThreads files,
          symbolMap = symbolMap pd\<rparr>"
proof (induction files arbitrary: pd)
  case Nil
  show ?case
    by (cases pd) (simp add: sectionReaders_Nil builtSymbols_def builtThreads_def)
next
  case (Cons member rest)
  from Cons.prems have me: "memberError pf member = None" and fe: "firstError pf rest = None"
    by (simp_all split: option.splits)
  note IH = Cons.IH [OF fe]
  from me obtain rc where rc: "zfOpen member = Inr rc"
    by (cases "zfOpen member") (simp_all add: memberError_def)
  from me rc have se: "sectionError pf (zfName member) rc = None"
    by (simp add: memberError_def)
  consider (stats) "zfName member = ''Stats.txt''"
    | (symbols) "zfName member = ''Symbols.txt''"
    | (callstacks) "zfName member = ''Callstacks.txt''"
    | (threads) "zfName member = ''Threads.txt''"
    | (other) "zfName member \<noteq> ''Stats.txt''" "zfName member \<noteq> ''Symbols.txt''"
        "zfName member \<noteq> ''Callstacks.txt''" "zfName member \<noteq> ''Threads.txt''"
    by blast
  then show ?case
  proof cases
    case stats
    from se stats have "snd (parseStats rc zeroStats) = None"
      by (simp add: sectionError_def wrapError_def split: option.splits)
    then have "snd (parseStats rc (pdStats pd)) = None"
      using parseStats_error [of rc "pdStats pd" zeroStats] by simp
    then have p: "parseStats rc (pdStats pd) = (fst (parseStats rc (pdStats pd)), None)"
      by (simp add: prod_eq_iff)
    have step: "readFiles pf (member # rest) pd
        = readFiles pf rest (pd\<lparr>pdStats := fst (parseStats rc (pdStats pd))\<rparr>)"
      using rc stats by (simp, subst p) simp
    show ?thesis
      unfolding step IH
      using rc stats
      by (simp add: sectionReaders_Cons builtSymbols_def builtThreads_def)
  next
    case symbols
    from se symbols have e: "snd (parseSymbols rc []) = None"
      by (simp add: sectionError_def wrapError_def split: option.splits)
    have p: "parseSymbols rc (Symbols pd) = (Symbols pd @ fst (parseSymbols rc []), None)"
      using parseSymbols_prefix [of rc "Symbols pd"] e by simp
    have step: "readFiles pf (member # rest) pd
        = readFiles pf rest (pd\<lparr>Symbols := Symbols pd @ fst (parseSymbols rc [])\<rparr>)"
      using rc symbols by (simp add: p)
    show ?thesis
      unfolding step IH
      using rc symbols
      by (simp add: sectionReaders_Cons builtSymbols_def builtThreads_def)
  next
    case callstacks
    from se callstacks obtain css where p: "parseCallstacks pf rc = Inr css"
      by (cases "parseCallstacks pf rc")
         (simp_all add: sectionError_def wrapError_def)
    have step: "readFiles pf (member # rest) pd
        = readFiles pf rest (pd\<lparr>Callstacks := css\<rparr>)"
      using rc callstacks by (simp add: p)
    show ?thesis
      unfolding step IH
      using rc callstacks p
      by (simp add: sectionReaders_Cons builtSymbols_def builtThreads_def samplesOfReader_def)
  next
    case threads
    from se threads have e: "snd (parseThreads rc []) = None"
      by (simp add: sectionError_def wrapError_def split: option.splits)
    have p: "parseThreads rc (Threads pd) = (Threads pd @ fst (parseThreads rc []), None)"
      using parseThreads_prefix [of rc "Threads pd"] e by simp
    have step: "readFiles pf (member # rest) pd
        = readFiles pf rest (pd\<lparr>Threads := Threads pd @ fst (parseThreads rc [])\<rparr>)"
      using rc threads by (simp add: p)
    show ?thesis
      unfolding step IH
      using rc threads
      by (simp add: sectionReaders_Cons builtSymbols_def builtThreads_def)
  next
    case other
    have step: "readFiles pf (member # rest) pd = readFiles pf rest pd"
      using rc other by simp
    show ?thesis
      unfolding step IH
      using rc other
      by (simp add: sectionReaders_Cons builtSymbols_def builtThreads_def)
  qed
qed

text \<open>
  Claim C4. \<open>ReadSleepyProfile\<close> returns either an error and no profile, or a profile
  and no error. When the archive cannot be opened the error says so. Otherwise, when
  some member of the archive has an error (it cannot be opened, or the parser of its
  section fails), the result is the error of the first such member in archive order,
  a parser's error being wrapped with the name of its section, and there is no
  profile, whatever the parsers had stored before the failure. When no member has an
  error, the result is the profile fully built: its metadata, its symbols, its
  samples and its threads are what the parsers of the four sections read from the
  members of the archive, and its index is the one built from its symbol list.
\<close>

theorem ReadSleepyProfile_atomic:
  "(case OpenReader filePath of
      Inl err \<Rightarrow>
        ReadSleepyProfile pf OpenReader filePath
          = Inl (Errorf ''failed to open zip file: %w'' [] (Some err))
    | Inr files \<Rightarrow>
        (case firstError pf files of
           Some err \<Rightarrow> ReadSleepyProfile pf OpenReader filePath = Inl err
         | None \<Rightarrow>
             ReadSleepyProfile pf OpenReader filePath
               = Inr \<lparr>pdStats = builtStats files, Symbols = builtSymbols files,
                      Callstacks = builtCallstacks pf files, Threads = builtThreads files,
                      symbolMap = buildSymbolMapLoop (builtSymbols files) Map.empty\<rparr>))"
proof (cases "OpenReader filePath")
  case (Inl err)
  then show ?thesis by (simp add: ReadSleepyProfile_def)
next
  case (Inr files)
  show ?thesis
  proof (cases "firstError pf files")
    case (Some err)
    then have "readFiles pf files emptyProfile = Inl err" by (rule readFiles_error)
    with Some Inr show ?thesis by (simp add: ReadSleepyProfile_def)
  next
    case None
    have "readFiles pf files emptyProfile
        = Inr \<lparr>pdStats = builtStats files, Symbols = builtSymbols files,
               Callstacks = builtCallstacks pf files, Threads = builtThreads files,
               symbolMap = Map.empty\<rparr>"
      unfolding readFiles_built [OF None]
      by (simp add: emptyProfile_def builtStats_def builtCallstacks_def)
    with None Inr show ?thesis
      by (simp add: ReadSleepyProfile_def buildSymbolMap_def)
  qed
qed

lemma brokenArchive_firstError:
  "firstError exampleParseFloat brokenArchive
     = Some (Errorf ''failed to parse Threads.txt: %w'' []
              (Some (Errorf ''invalid thread ID in Threads.txt: %w'' []
                       (Some (NumError ''Atoi'' ''x'' ErrSyntax)))))"
  by code_simp

lemma sample_line:
  "TrimSpace ''0.5 0x1000 0x2000'' = ''0.5 0x1000 0x2000''"
  "Fields ''0.5 0x1000 0x2000'' = [''0.5'', ''0x1000'', ''0x2000'']"
  by code_simp+

lemma sample_addresses: "parseAddresses [''0x1000'', ''0x2000''] [] = Inr [4096, 8192]"
  by (simp add: HasPrefix_def TrimPrefix_def ParseUint_def digitVal_def maxUint64_def)

lemma goodArchive_members:
  "parseStats \<lparr>rdLines = [''Filename: app.exe'', ''Samples: 1''], rdErr = None\<rparr> zeroStats
     = (\<lparr>Filename = ''app.exe'', Duration = '''', Date = '''', NumSamples = 1\<rparr>, None)"
  "parseSymbols \<lparr>rdLines = [''0x1000 app.exe main src/x.c 42''], rdErr = None\<rparr> []
     = ([exampleSymbol], None)"
  "parseThreads nbspThreads [] = ([\<lparr>ID = 1, Name = ''main''\<rparr>], None)"
  by code_simp+

lemma goodArchive_samples:
  "parseCallstacks exampleParseFloat \<lparr>rdLines = [''0.5 0x1000 0x2000''], rdErr = None\<rparr>
     = Inr [\<lparr>Addresses = [4096, 8192], ThreadCounts = [(1, 1/2)]\<rparr>]"
  by (simp add: parseCallstacks_def sample_line sample_addresses exampleParseFloat_def
      del: parseAddresses.simps)

lemma goodArchive_firstError: "firstError exampleParseFloat goodArchive = None"
  by (simp add: goodArchive_def memberError_def sectionError_def wrapError_def
      goodArchive_members goodArchive_samples)

lemma goodArchive_built:
  "builtStats goodArchive
     = \<lparr>Filename = ''app.exe'', Duration = '''', Date = '''', NumSamples = 1\<rparr>"
  "builtSymbols goodArchive = [exampleSymbol]"
  "builtCallstacks exampleParseFloat goodArchive
     = [\<lparr>Addresses = [4096, 8192], ThreadCounts = [(1, 1/2)]\<rparr>]"
  "builtThreads goodArchive = [\<lparr>ID = 1, Name = ''main''\<rparr>]"
  by (simp_all add: builtStats_def builtSymbols_def builtCallstacks_def builtThreads_def
      samplesOfReader_def sectionReaders_def goodArchive_def goodArchive_members
      goodArchive_samples)
text \<open>
  On the first archive the result is the error of the thread table, wrapped with the
  name of the section, and not that of the symbol table behind it. On the second the
  result is a profile that holds the metadata, the symbol, the sample and the thread
  of the four members, with the symbol in its index; the line of the thread table
  that holds a no-break space has been skipped as blank.
\<close>

theorem ReadSleepyProfile_atomic_witness:
  "ReadSleepyProfile exampleParseFloat (\<lambda>p. Inr brokenArchive) ''p.sleepy''
     = Inl (Errorf ''failed to parse Threads.txt: %w'' []
             (Some (Errorf ''invalid thread ID in Threads.txt: %w'' []
                      (Some (NumError ''Atoi'' ''x'' ErrSyntax)))))
   \<and> (\<exists>pd. ReadSleepyProfile exampleParseFloat (\<lambda>p. Inr goodArchive) ''p.sleepy'' = Inr pd
           \<and> pdStats pd = \<lparr>Filename = ''app.exe'', Duration = '''', Date = '''', NumSamples = 1\<rparr>
           \<and> Symbols pd = [exampleSymbol]
           \<and> Callstacks pd = [\<lparr>Addresses = [4096, 8192], ThreadCounts = [(1, 1/2)]\<rparr>]
           \<and> Threads pd = [\<lparr>ID = 1, Name = ''main''\<rparr>]
           \<and> symbolMap pd 4096 = Some exampleSymbol \<and> symbolMap pd 8192 = None)"
proof -
  have first: "ReadSleepyProfile exampleParseFloat (\<lambda>p. Inr brokenArchive) ''p.sleepy''
     = Inl (Errorf ''failed to parse Threads.txt: %w'' []
             (Some (Errorf ''invalid thread ID in Threads.txt: %w'' []
                      (Some (NumError ''Atoi'' ''x'' ErrSyntax)))))"
    using ReadSleepyProfile_atomic [where OpenReader = "\<lambda>p. Inr brokenArchive"
        and filePath = "''p.sleepy''" and pf = exampleParseFloat]
    by (simp add: brokenArchive_firstError)
  have second: "ReadSleepyProfile exampleParseFloat (\<lambda>p. Inr goodArchive) ''p.sleepy''
      = Inr \<lparr>pdStats = \<lparr>Filename = ''app.exe'', Duration = '''', Date = '''', NumSamples = 1\<rparr>,
             Symbols = [exampleSymbol],
             Callstacks = [\<lparr>Addresses = [4096, 8192], ThreadCounts = [(1, 1/2)]\<rparr>],
             Threads = [\<lparr>ID = 1, Name = ''main''\<rparr>],
             symbolMap = buildSymbolMapLoop [exampleSymbol] Map.empty\<rparr>"
    using ReadSleepyProfile_atomic [where OpenReader = "\<lambda>p. Inr goodArchive"
        and filePath = "''p.sleepy''" and pf = exampleParseFloat]
    by (simp add: goodArchive_firstError goodArchive_built)
  have idx: "buildSymbolMapLoop [exampleSymbol] Map.empty = [4096 \<mapsto> exampleSymbol]"
    by (simp add: exampleSymbol_def HasPrefix_def TrimPrefix_def ParseUint_def digitVal_def
        maxUint64_def)
  from first second show ?thesis by (simp add: idx del: buildSymbolMapLoop.simps)
qed

end
